theory Spec2Isabelle
  imports Complex_Main "HOL-Library.AList"
begin

text \<open>
  A shallow embedding of three parts of zDAW: the time-base helpers of the \<open>types\<close>
  module, the session clip launcher (\<open>ClipLauncher\<close>) and the warp engine
  (\<open>WarpEngine\<close>). The definitions come first, in the order of the source; the results
  follow, each under the number of the property it settles.
\<close>

section \<open>Time base (types module)\<close>

text \<open>
  \<open>Beats\<close> and \<open>Seconds\<close> are JavaScript numbers in the source. For the clip
  launcher and the warp engine they are modelled as real numbers: there the rounding of
  IEEE doubles is outside the model, and a division by zero (which the source turns into
  Infinity or NaN) is the HOL value \<open>x / 0 = 0\<close>; the statements below that divide
  say which divisor they assume non-zero. The two conversions are given a second time
  below, in the double arithmetic in which the source computes them.
\<close>

type_synonym Beats = real
type_synonym Seconds = real

definition beatsToSeconds :: "Beats \<Rightarrow> real \<Rightarrow> Seconds" where
  "beatsToSeconds beats tempo = (beats / tempo) * 60"

definition secondsToBeats :: "Seconds \<Rightarrow> real \<Rightarrow> Beats" where
  "secondsToBeats seconds tempo = (seconds / 60) * tempo"

datatype LaunchQuantization =
  QNone | Q1_32 | Q1_16 | Q1_8 | Q1_4 | Q1_2 | Q1Bar | Q2Bars | Q4Bars | Q8Bars | QGlobal

fun launchQuantizationToBeats :: "LaunchQuantization \<Rightarrow> real \<Rightarrow> Beats" where
  "launchQuantizationToBeats QNone tempo = 0"
| "launchQuantizationToBeats Q1_32 tempo = 0.125"
| "launchQuantizationToBeats Q1_16 tempo = 0.25"
| "launchQuantizationToBeats Q1_8 tempo = 0.5"
| "launchQuantizationToBeats Q1_4 tempo = 1"
| "launchQuantizationToBeats Q1_2 tempo = 2"
| "launchQuantizationToBeats Q1Bar tempo = 4"
| "launchQuantizationToBeats Q2Bars tempo = 8"
| "launchQuantizationToBeats Q4Bars tempo = 16"
| "launchQuantizationToBeats Q8Bars tempo = 32"
| "launchQuantizationToBeats QGlobal tempo = 4"

definition getNextQuantizedBeat :: "Beats \<Rightarrow> LaunchQuantization \<Rightarrow> real \<Rightarrow> Beats" where
  "getNextQuantizedBeat currentBeat quantization tempo =
     (let q = launchQuantizationToBeats quantization tempo
      in if q = 0 then currentBeat else of_int \<lceil>currentBeat / q\<rceil> * q)"

subsection \<open>The conversions in double arithmetic\<close>











section \<open>Warp markers (WarpEngine)\<close>

record WarpMarker =
  wm_id :: string
  sampleTime :: Seconds
  beatTime :: Beats

datatype WarpMode = BeatsMode | TonesMode | TextureMode | ComplexMode | RepitchMode | OffMode

record WarpSettings =
  enabled :: bool
  mode :: WarpMode
  originalBPM :: real
  markers :: "WarpMarker list"
  transientSensitivity :: real
  grainSize :: real
  preservePitch :: bool

text \<open>
  \<open>sampleToBeat\<close> and \<open>beatToSample\<close> scan the consecutive marker pairs from index
  \<open>i\<close> and return at the first pair that brackets the argument; \<open>None\<close> is the loop
  running off its end, after which the source extrapolates from the last marker.
\<close>

function sampleToBeatLoop :: "WarpMarker list \<Rightarrow> Seconds \<Rightarrow> nat \<Rightarrow> Beats option" where
  "sampleToBeatLoop ms t i =
     (if i + 1 < length ms then
        (if t \<ge> sampleTime (ms ! i) \<and> t \<le> sampleTime (ms ! (i + 1)) then
           (let sampleRange = sampleTime (ms ! (i + 1)) - sampleTime (ms ! i);
                beatRange = beatTime (ms ! (i + 1)) - beatTime (ms ! i);
                u = (t - sampleTime (ms ! i)) / sampleRange
            in Some (beatTime (ms ! i) + u * beatRange))
         else sampleToBeatLoop ms t (i + 1))
      else None)"
  by pat_completeness auto
termination
  by (relation "measure (\<lambda>(ms, t, i). length ms - i)") auto

declare sampleToBeatLoop.simps [simp del]

definition sampleToBeat :: "WarpSettings \<Rightarrow> Seconds \<Rightarrow> Beats" where
  "sampleToBeat s t =
     (let ms = markers s in
      if length ms < 2 then secondsToBeats t (originalBPM s)
      else (case sampleToBeatLoop ms t 0 of
              Some b \<Rightarrow> b
            | None \<Rightarrow>
                (let l = last ms
                 in beatTime l + secondsToBeats (t - sampleTime l) (originalBPM s))))"

function beatToSampleLoop :: "WarpMarker list \<Rightarrow> Beats \<Rightarrow> nat \<Rightarrow> Seconds option" where
  "beatToSampleLoop ms b i =
     (if i + 1 < length ms then
        (if b \<ge> beatTime (ms ! i) \<and> b \<le> beatTime (ms ! (i + 1)) then
           (let beatRange = beatTime (ms ! (i + 1)) - beatTime (ms ! i);
                sampleRange = sampleTime (ms ! (i + 1)) - sampleTime (ms ! i);
                u = (b - beatTime (ms ! i)) / beatRange
            in Some (sampleTime (ms ! i) + u * sampleRange))
         else beatToSampleLoop ms b (i + 1))
      else None)"
  by pat_completeness auto
termination
  by (relation "measure (\<lambda>(ms, b, i). length ms - i)") auto

declare beatToSampleLoop.simps [simp del]

definition beatToSample :: "WarpSettings \<Rightarrow> Beats \<Rightarrow> Seconds" where
  "beatToSample s b =
     (let ms = markers s in
      if length ms < 2 then beatsToSeconds b (originalBPM s)
      else (case beatToSampleLoop ms b 0 of
              Some t \<Rightarrow> t
            | None \<Rightarrow>
                (let l = last ms
                 in sampleTime l + beatsToSeconds (b - beatTime l) (originalBPM s))))"

text \<open>The marker set \<open>[(0,0), (1.0,2.0), (2.0,4.5)]\<close> of the specification's test.\<close>

definition specMarkers :: "WarpMarker list" where
  "specMarkers =
     [\<lparr>wm_id = ''m0'', sampleTime = 0, beatTime = 0\<rparr>,
      \<lparr>wm_id = ''m1'', sampleTime = 1, beatTime = 2\<rparr>,
      \<lparr>wm_id = ''m2'', sampleTime = 2, beatTime = 4.5\<rparr>]"

section \<open>Clip launcher: data\<close>

datatype LegatoMode = LegatoOff | Legato | LegatoImmediate

datatype ClipState = Stopped | Playing | Recording | Triggered | Stopping

datatype TransportState = TStopped | TPlaying | TRecording | TPaused

datatype FollowActionType =
  FNone | FStop | FPlayAgain | FPrevious | FNext | FFirst | FLast | FAny | FOther | FJump

record FollowAction =
  action :: FollowActionType
  chance :: real
  jumpTarget :: "string option"

record FollowActionPair =
  actionA :: FollowAction
  actionB :: FollowAction
  fa_time :: Beats
  linked :: bool

record MIDINoteData =
  n_id :: string
  n_note :: nat
  n_velocity :: nat
  n_start :: Beats
  n_duration :: Beats

record AudioRegion =
  r_id :: string
  r_sampleId :: string
  r_start :: Beats
  r_duration :: Beats
  r_offset :: Seconds
  r_gain :: real
  r_fadeIn :: Seconds
  r_fadeOut :: Seconds

datatype ClipContent = Audio "AudioRegion list" | Midi "MIDINoteData list"

text \<open>
  A clip, with the fields of \<open>ClipBase\<close> that the launcher reads. An optional field of
  the source (\<open>loopEnabled?\<close>, \<open>legato?\<close>, ...) is an \<open>option\<close>, \<open>None\<close> for undefined.
  The tag \<open>type\<close> and the payload (\<open>regions\<close> or \<open>notes\<close>) are the \<open>content\<close>.
\<close>

record Clip =
  c_id :: string
  c_duration :: Beats
  loopEnabled :: "bool option"
  loopStart :: "Beats option"
  loopEnd :: "Beats option"
  legato :: "LegatoMode option"
  followAction :: "FollowActionPair option"
  content :: ClipContent

text \<open>
  What the launcher hands to the audio renderer for one region: the arguments of
  \<open>source.start\<close> and the loop points set on the \<open>AudioBufferSourceNode\<close>.
\<close>

record SourceNode =
  src_buffer :: string
  src_gain :: real
  src_when :: Seconds
  src_offset :: Seconds
  src_duration :: "Seconds option"
  src_loop :: "(Seconds \<times> Seconds) option"

record ScheduledMIDIEvent =
  ev_noteId :: string
  ev_note :: nat
  ev_velocity :: nat
  ev_startTime :: Seconds
  ev_endTime :: Seconds
  ev_triggered :: bool

record ScheduledClip =
  sc_id :: nat
  trackId :: string
  slotIndex :: nat
  clip :: Clip
  state :: ClipState
  launchTime :: Beats
  stopTime :: "Beats option"
  loopCount :: nat
  sources :: "SourceNode list"
  midiEvents :: "ScheduledMIDIEvent list"

datatype ClipLauncherEvent =
  ClipStarted string nat
| ClipStopped string nat
| ClipLooped string nat nat
| FollowActionEvent string nat FollowAction

text \<open>
  The launcher. A \<open>ScheduledClip\<close> is a mutable object that the three maps share (the
  same object sits in \<open>triggered\<close> and \<open>playing\<close> after an immediate start, in
  \<open>playing\<close> and \<open>stopping\<close> while it waits for its stop), so the objects live in a
  \<open>heap\<close> and the maps hold references, the index of the object in the heap. A JavaScript
  \<open>Map\<close> iterates in insertion order: each map is an association list, \<open>Map.get\<close> is
  \<open>map_of\<close>, \<open>Map.set\<close> is \<open>AList.update\<close> (in place for a key that is present, at the
  end otherwise) and \<open>Map.delete\<close> is \<open>AList.delete\<close>.

  \<open>currentTime\<close> is \<open>context.currentTime\<close>, the clock of the audio context, which
  the environment advances: the field is the value that the next reading of the clock
  returns. \<open>emitted\<close> is the sequence of events passed to \<open>emit\<close>, which
  every subscribed listener receives in this order; \<open>midiSent\<close> is the sequence of
  calls of the MIDI output callback, made only when one is installed (\<open>midiOutput\<close>).
  The sample cache is read only for the presence of a sample id.
\<close>

record ClipLauncher =
  heap :: "ScheduledClip list"
  playing :: "(string \<times> nat) list"
  triggered :: "(string \<times> nat) list"
  stopping :: "(string \<times> nat) list"
  bpm :: real
  globalQuantization :: LaunchQuantization
  transportState :: TransportState
  position :: Beats
  startTime :: Seconds
  currentTime :: Seconds
  sampleCache :: "string set"
  midiOutput :: bool
  emitted :: "ClipLauncherEvent list"
  midiSent :: "(nat \<times> nat \<times> nat) list"

definition newClipLauncher :: "Seconds \<Rightarrow> ClipLauncher" where
  "newClipLauncher now =
     \<lparr>heap = [], playing = [], triggered = [], stopping = [], bpm = 120,
      globalQuantization = Q1Bar, transportState = TStopped, position = 0, startTime = 0,
      currentTime = now, sampleCache = {}, midiOutput = False, emitted = [], midiSent = []\<rparr>"

section \<open>Clip launcher: operations\<close>

definition setBPM :: "real \<Rightarrow> ClipLauncher \<Rightarrow> ClipLauncher" where
  "setBPM b st = st\<lparr>bpm := b\<rparr>"

definition setGlobalQuantization :: "LaunchQuantization \<Rightarrow> ClipLauncher \<Rightarrow> ClipLauncher" where
  "setGlobalQuantization q st = st\<lparr>globalQuantization := q\<rparr>"

definition setMIDIOutput :: "ClipLauncher \<Rightarrow> ClipLauncher" where
  "setMIDIOutput st = st\<lparr>midiOutput := True\<rparr>"

definition loadSample :: "string \<Rightarrow> ClipLauncher \<Rightarrow> ClipLauncher" where
  "loadSample sid st = st\<lparr>sampleCache := insert sid (sampleCache st)\<rparr>"

definition getPosition :: "ClipLauncher \<Rightarrow> Beats" where
  "getPosition st =
     (if transportState st \<noteq> TPlaying then position st
      else position st + secondsToBeats (currentTime st - startTime st) (bpm st))"

definition modify :: "nat \<Rightarrow> (ScheduledClip \<Rightarrow> ScheduledClip) \<Rightarrow> ClipLauncher \<Rightarrow> ClipLauncher" where
  "modify r f st = st\<lparr>heap := (heap st)[r := f (heap st ! r)]\<rparr>"

definition emit :: "ClipLauncherEvent \<Rightarrow> ClipLauncher \<Rightarrow> ClipLauncher" where
  "emit e st = st\<lparr>emitted := emitted st @ [e]\<rparr>"

definition sendMidi :: "nat \<times> nat \<times> nat \<Rightarrow> ClipLauncher \<Rightarrow> ClipLauncher" where
  "sendMidi m st = (if midiOutput st then st\<lparr>midiSent := midiSent st @ [m]\<rparr> else st)"

text \<open>\<open>v || d\<close> on an optional number: undefined and 0 are falsy.\<close>

definition orElse :: "real option \<Rightarrow> real \<Rightarrow> real" where
  "orElse v d = (case v of None \<Rightarrow> d | Some x \<Rightarrow> if x = 0 then d else x)"

definition stopScheduledClip :: "nat \<Rightarrow> ClipLauncher \<Rightarrow> ClipLauncher" where
  "stopScheduledClip r st =
     (let st1 = modify r (\<lambda>s. s\<lparr>state := Stopped\<rparr>) st;
          st2 = modify r (\<lambda>s. s\<lparr>sources := []\<rparr>) st1;
          st3 = fold (\<lambda>ev s. if ev_triggered ev then sendMidi (ev_note ev, 0, 0) s else s)
                  (midiEvents (heap st2 ! r)) st2;
          st4 = modify r (\<lambda>s. s\<lparr>midiEvents := []\<rparr>) st3
      in emit (ClipStopped (trackId (heap st4 ! r)) (slotIndex (heap st4 ! r))) st4)"

definition startAudioClip :: "nat \<Rightarrow> Clip \<Rightarrow> AudioRegion list \<Rightarrow> ClipLauncher \<Rightarrow> ClipLauncher" where
  "startAudioClip r c regions st =
     (let now = currentTime st; clipDuration = c_duration c
      in fold (\<lambda>region s.
           if r_sampleId region \<notin> sampleCache s then s
           else
             (let regionStartTime = now + beatsToSeconds (r_start region) (bpm s);
                  duration = beatsToSeconds (r_duration region) (bpm s);
                  looping = (loopEnabled c = Some True);
                  source = \<lparr>src_buffer = r_sampleId region, src_gain = r_gain region,
                            src_when = regionStartTime, src_offset = r_offset region,
                            src_duration = (if looping then None else Some duration),
                            src_loop = (if looping
                              then Some (beatsToSeconds (orElse (loopStart c) 0) (bpm s),
                                         beatsToSeconds (orElse (loopEnd c) clipDuration) (bpm s))
                              else None)\<rparr>
              in modify r (\<lambda>sc. sc\<lparr>sources := sources sc @ [source]\<rparr>) s))
         regions st)"

definition scheduleNotes :: "Seconds \<Rightarrow> real \<Rightarrow> MIDINoteData list \<Rightarrow> ScheduledMIDIEvent list" where
  "scheduleNotes now tempo notes =
     map (\<lambda>n.
        (let noteStartTime = now + beatsToSeconds (n_start n) tempo;
             noteEndTime = noteStartTime + beatsToSeconds (n_duration n) tempo
         in \<lparr>ev_noteId = n_id n, ev_note = n_note n, ev_velocity = n_velocity n,
             ev_startTime = noteStartTime, ev_endTime = noteEndTime, ev_triggered = False\<rparr>))
       notes"

definition startMIDIClip :: "nat \<Rightarrow> MIDINoteData list \<Rightarrow> ClipLauncher \<Rightarrow> ClipLauncher" where
  "startMIDIClip r notes st =
     modify r (\<lambda>sc. sc\<lparr>midiEvents := midiEvents sc @ scheduleNotes (currentTime st) (bpm st) notes\<rparr>) st"

definition rescheduleMIDI :: "nat \<Rightarrow> MIDINoteData list \<Rightarrow> ClipLauncher \<Rightarrow> ClipLauncher" where
  "rescheduleMIDI r notes st =
     modify r (\<lambda>sc. sc\<lparr>midiEvents := scheduleNotes (currentTime st) (bpm st) notes\<rparr>) st"

definition startClip :: "nat \<Rightarrow> ClipLauncher \<Rightarrow> ClipLauncher" where
  "startClip r st =
     (let st1 = modify r (\<lambda>s. s\<lparr>state := Playing\<rparr>) st;
          sc = heap st1 ! r;
          st2 = st1\<lparr>playing := AList.update (trackId sc) r (playing st1)\<rparr>;
          st3 = (case content (clip sc) of
                   Audio regions \<Rightarrow> startAudioClip r (clip sc) regions st2
                 | Midi notes \<Rightarrow> startMIDIClip r notes st2)
      in emit (ClipStarted (trackId sc) (slotIndex sc)) st3)"

text \<open>
  \<open>launchClip\<close>. The new object is allocated at the end of the heap; \<open>generateId()\<close>,
  which the launcher never reads back, is the allocation index.
\<close>

definition launchClip ::
  "string \<Rightarrow> nat \<Rightarrow> Clip \<Rightarrow> LaunchQuantization \<Rightarrow> ClipLauncher \<Rightarrow> ClipLauncher" where
  "launchClip tid slot c quantization st =
     (let q = (if quantization = QGlobal then globalQuantization st else quantization);
          currentPos = getPosition st;
          launchTime0 = getNextQuantizedBeat currentPos q (bpm st);
          r = length (heap st);
          scheduled = \<lparr>sc_id = r, trackId = tid, slotIndex = slot, clip = c, state = Triggered,
                       launchTime = launchTime0, stopTime = None, loopCount = 0,
                       sources = [], midiEvents = []\<rparr>;
          st1 = st\<lparr>heap := heap st @ [scheduled]\<rparr>;
          currentlyPlaying = map_of (playing st1) tid;
          st2 = (if currentlyPlaying \<noteq> None \<and> legato c = Some Legato
                 then modify r (\<lambda>s. s\<lparr>launchTime := currentPos\<rparr>) st1 else st1);
          st3 = (case currentlyPlaying of
                   None \<Rightarrow> st2
                 | Some p \<Rightarrow>
                     (let s = modify p (\<lambda>s. s\<lparr>stopTime := Some launchTime0\<rparr>) st2
                      in s\<lparr>stopping := AList.update tid p (stopping s)\<rparr>));
          st4 = st3\<lparr>triggered := AList.update tid r (triggered st3)\<rparr>
      in if q = QNone \<or> launchTime0 \<le> currentPos then startClip r st4 else st4)"

definition stopClip :: "string \<Rightarrow> LaunchQuantization \<Rightarrow> ClipLauncher \<Rightarrow> ClipLauncher" where
  "stopClip tid quantization st =
     (let q = (if quantization = QGlobal then globalQuantization st else quantization);
          currentPos = getPosition st;
          stopTime0 = getNextQuantizedBeat currentPos q (bpm st);
          st3 = (case map_of (playing st) tid of
                   None \<Rightarrow> st
                 | Some p \<Rightarrow>
                     (let s1 = modify p (\<lambda>s. s\<lparr>state := Stopping\<rparr>) st;
                          s2 = modify p (\<lambda>s. s\<lparr>stopTime := Some stopTime0\<rparr>) s1;
                          s3 = s2\<lparr>stopping := AList.update tid p (stopping s2)\<rparr>
                      in if q = QNone \<or> stopTime0 \<le> currentPos then
                           (let s4 = stopScheduledClip p s3;
                                s5 = s4\<lparr>playing := AList.delete tid (playing s4)\<rparr>
                            in s5\<lparr>stopping := AList.delete tid (stopping s5)\<rparr>)
                         else s3))
      in st3\<lparr>triggered := AList.delete tid (triggered st3)\<rparr>)"

text \<open>
  \<open>launchScene\<close> calls \<open>launchClip\<close> once for each entry, in order. It captures no
  position of its own: every \<open>launchClip\<close> reads \<open>context.currentTime\<close> anew (through
  \<open>getPosition\<close>), and the clock may have moved on since the call before. \<open>clock k\<close>
  is the value of \<open>context.currentTime\<close> that the call for entry \<open>k\<close> of the scene
  reads; \<open>launchSceneFrom\<close> is the loop from entry \<open>k\<close> on.
\<close>

fun launchSceneFrom ::
  "(nat \<Rightarrow> Seconds) \<Rightarrow> nat \<Rightarrow> (string \<times> nat \<times> Clip) list \<Rightarrow> LaunchQuantization
   \<Rightarrow> ClipLauncher \<Rightarrow> ClipLauncher" where
  "launchSceneFrom clock k [] quantization st = st"
| "launchSceneFrom clock k ((tid, slot, c) # clips) quantization st =
     launchSceneFrom clock (k + 1) clips quantization
       (launchClip tid slot c quantization (st\<lparr>currentTime := clock k\<rparr>))"

definition launchScene ::
  "(nat \<Rightarrow> Seconds) \<Rightarrow> (string \<times> nat \<times> Clip) list \<Rightarrow> LaunchQuantization
   \<Rightarrow> ClipLauncher \<Rightarrow> ClipLauncher" where
  "launchScene clock clips quantization st = launchSceneFrom clock 0 clips quantization st"

text \<open>
  A \<open>for ... of\<close> over a map whose body deletes entries visits an entry only when it
  is still in the map; no loop of the launcher adds to the map it iterates. \<open>present\<close>
  is that test, on the entries the map had when the loop began.
\<close>

definition present :: "(string \<times> nat) list \<Rightarrow> string \<Rightarrow> nat \<Rightarrow> bool" where
  "present m k r = (map_of m k = Some r)"

definition stopAll :: "LaunchQuantization \<Rightarrow> ClipLauncher \<Rightarrow> ClipLauncher" where
  "stopAll quantization st =
     (let st1 = fold (\<lambda>(tid, r) s. if present (playing s) tid r then stopClip tid quantization s else s)
                  (playing st) st
      in st1\<lparr>triggered := []\<rparr>)"

definition start :: "Beats \<Rightarrow> ClipLauncher \<Rightarrow> ClipLauncher" where
  "start pos st =
     (if transportState st = TPlaying then st
      else st\<lparr>transportState := TPlaying, position := pos, startTime := currentTime st\<rparr>)"

definition stop :: "ClipLauncher \<Rightarrow> ClipLauncher" where
  "stop st =
     (let st1 = st\<lparr>transportState := TStopped\<rparr>;
          st2 = fold (\<lambda>(tid, r) s. stopScheduledClip r s) (playing st1) st1
      in st2\<lparr>playing := [], triggered := [], stopping := []\<rparr>)"

text \<open>
  \<open>pause\<close> sets the transport state before it reads \<open>getPosition()\<close>, which therefore
  returns the stored position. Stopping the audio sources of the playing clips is an
  effect on the renderer only: the \<open>sources\<close> lists are left as they are.
\<close>

definition pause :: "ClipLauncher \<Rightarrow> ClipLauncher" where
  "pause st =
     (let st1 = st\<lparr>transportState := TPaused\<rparr>
      in st1\<lparr>position := getPosition st1\<rparr>)"

definition processFollowAction ::
  "nat \<Rightarrow> FollowActionPair \<Rightarrow> real \<Rightarrow> ClipLauncher \<Rightarrow> ClipLauncher" where
  "processFollowAction r fa random st =
     (let a = (if random \<le> chance (actionA fa) then actionA fa else actionB fa)
      in if action a = FNone then st
         else
           (let st1 = emit (FollowActionEvent (trackId (heap st ! r)) (slotIndex (heap st ! r)) a) st
            in case action a of
                 FStop \<Rightarrow> stopClip (trackId (heap st1 ! r)) QNone st1
               | _ \<Rightarrow> st1))"

definition midiStep :: "Seconds \<Rightarrow> ScheduledMIDIEvent \<Rightarrow> ScheduledMIDIEvent \<times> (nat \<times> nat \<times> nat) list" where
  "midiStep now ev =
     (let fire = (\<not> ev_triggered ev \<and> now \<ge> ev_startTime ev);
          ev1 = (if fire then ev\<lparr>ev_triggered := True\<rparr> else ev);
          noteOn = (if fire then [(ev_note ev, ev_velocity ev, 0)] else []);
          noteOff = (if ev_triggered ev1 \<and> now \<ge> ev_endTime ev1 then [(ev_note ev1, 0, 0)] else [])
      in (ev1, noteOn @ noteOff))"

definition processMidiEvents :: "nat \<Rightarrow> Seconds \<Rightarrow> ClipLauncher \<Rightarrow> ClipLauncher" where
  "processMidiEvents r now st =
     (let steps = map (midiStep now) (midiEvents (heap st ! r));
          st1 = modify r (\<lambda>sc. sc\<lparr>midiEvents := map fst steps\<rparr>) st
      in fold sendMidi (concat (map snd steps)) st1)"

definition processPlayingClip :: "nat \<Rightarrow> Beats \<Rightarrow> Seconds \<Rightarrow> real \<Rightarrow> ClipLauncher \<Rightarrow> ClipLauncher" where
  "processPlayingClip r pos now random st =
     (let c = clip (heap st ! r);
          st1 = (case content c of Midi notes \<Rightarrow> processMidiEvents r now st | Audio regions \<Rightarrow> st);
          clipDuration = c_duration c;
          clipPos = pos - launchTime (heap st1 ! r)
      in if loopEnabled c \<noteq> Some False then
           (let loopEnd0 = orElse (loopEnd c) clipDuration
            in if clipPos \<ge> loopEnd0 * real (loopCount (heap st1 ! r) + 1) then
                 (let st2 = modify r (\<lambda>s. s\<lparr>loopCount := loopCount s + 1\<rparr>) st1;
                      st3 = emit (ClipLooped (trackId (heap st2 ! r)) (slotIndex (heap st2 ! r))
                                   (loopCount (heap st2 ! r))) st2;
                      st4 = (case followAction c of
                               Some fa \<Rightarrow> processFollowAction r fa random st3
                             | None \<Rightarrow> st3)
                  in case content c of
                       Midi notes \<Rightarrow> rescheduleMIDI r notes st4
                     | Audio regions \<Rightarrow> st4)
               else st1)
         else if clipPos \<ge> clipDuration then
           (let st2 = stopScheduledClip r st1
            in st2\<lparr>playing := AList.delete (trackId (heap st2 ! r)) (playing st2)\<rparr>)
         else st1)"

text \<open>
  One run of the ticker's callback. \<open>random k\<close> is the number \<open>Math.random()\<close> returns
  when the follow action of the clip playing on track \<open>k\<close> is evaluated in this tick
  (each playing entry is processed once, so at most one draw per track).
\<close>

definition tick :: "(string \<Rightarrow> real) \<Rightarrow> ClipLauncher \<Rightarrow> ClipLauncher" where
  "tick random st =
     (if transportState st \<noteq> TPlaying then st
      else
        (let pos = getPosition st;
             now = currentTime st;
             st1 = fold (\<lambda>(tid, r) s.
                      if present (triggered s) tid r \<and> pos \<ge> launchTime (heap s ! r)
                      then (let s1 = startClip r s
                            in s1\<lparr>triggered := AList.delete tid (triggered s1)\<rparr>)
                      else s)
                     (triggered st) st;
             st2 = fold (\<lambda>(tid, r) s.
                      if present (stopping s) tid r
                         \<and> (case stopTime (heap s ! r) of None \<Rightarrow> False | Some t \<Rightarrow> pos \<ge> t)
                      then (let s1 = stopScheduledClip r s;
                                s2 = s1\<lparr>playing := AList.delete tid (playing s1)\<rparr>
                            in s2\<lparr>stopping := AList.delete tid (stopping s2)\<rparr>)
                      else s)
                     (stopping st1) st1
         in fold (\<lambda>(tid, r) s.
                if present (playing s) tid r then processPlayingClip r pos now (random tid) s else s)
              (playing st2) st2))"

definition runTicks :: "(Seconds \<times> (string \<Rightarrow> real)) list \<Rightarrow> ClipLauncher \<Rightarrow> ClipLauncher" where
  "runTicks ts st = fold (\<lambda>(t, random) s. tick random (s\<lparr>currentTime := t\<rparr>)) ts st"

definition getClipState :: "ClipLauncher \<Rightarrow> string \<Rightarrow> nat \<Rightarrow> ClipState" where
  "getClipState st tid slot =
     (case map_of (playing st) tid of
        Some p \<Rightarrow> if slotIndex (heap st ! p) = slot then state (heap st ! p)
                  else (case map_of (triggered st) tid of
                          Some t \<Rightarrow> if slotIndex (heap st ! t) = slot then Triggered
                                    else (case map_of (stopping st) tid of
                                            Some s \<Rightarrow> if slotIndex (heap st ! s) = slot then Stopping else Stopped
                                          | None \<Rightarrow> Stopped)
                        | None \<Rightarrow> (case map_of (stopping st) tid of
                                      Some s \<Rightarrow> if slotIndex (heap st ! s) = slot then Stopping else Stopped
                                    | None \<Rightarrow> Stopped))
      | None \<Rightarrow> (case map_of (triggered st) tid of
                    Some t \<Rightarrow> if slotIndex (heap st ! t) = slot then Triggered
                              else (case map_of (stopping st) tid of
                                      Some s \<Rightarrow> if slotIndex (heap st ! s) = slot then Stopping else Stopped
                                    | None \<Rightarrow> Stopped)
                  | None \<Rightarrow> (case map_of (stopping st) tid of
                                Some s \<Rightarrow> if slotIndex (heap st ! s) = slot then Stopping else Stopped
                              | None \<Rightarrow> Stopped)))"

definition isPlaying :: "ClipLauncher \<Rightarrow> string \<Rightarrow> bool" where
  "isPlaying st tid = (map_of (playing st) tid \<noteq> None)"

definition getPlayingClip :: "ClipLauncher \<Rightarrow> string \<Rightarrow> Clip option" where
  "getPlayingClip st tid = map_option (\<lambda>p. clip (heap st ! p)) (map_of (playing st) tid)"

text \<open>
  The states of a launcher in use: the constructor's state, changed by calls of the
  public methods, by runs of the ticker and by the clock of the audio context moving on.
\<close>

inductive reachable :: "ClipLauncher \<Rightarrow> bool" where
  r_new: "reachable (newClipLauncher now)"
| r_setBPM: "reachable st \<Longrightarrow> reachable (setBPM b st)"
| r_setGlobalQuantization: "reachable st \<Longrightarrow> reachable (setGlobalQuantization q st)"
| r_setMIDIOutput: "reachable st \<Longrightarrow> reachable (setMIDIOutput st)"
| r_loadSample: "reachable st \<Longrightarrow> reachable (loadSample sid st)"
| r_start: "reachable st \<Longrightarrow> reachable (start pos st)"
| r_stop: "reachable st \<Longrightarrow> reachable (stop st)"
| r_pause: "reachable st \<Longrightarrow> reachable (pause st)"
| r_launchClip: "reachable st \<Longrightarrow> reachable (launchClip tid slot c q st)"
| r_stopClip: "reachable st \<Longrightarrow> reachable (stopClip tid q st)"
| r_launchScene: "reachable st \<Longrightarrow> reachable (launchScene clock clips q st)"
| r_stopAll: "reachable st \<Longrightarrow> reachable (stopAll q st)"
| r_tick: "reachable st \<Longrightarrow> reachable (tick random st)"
| r_clock: "reachable st \<Longrightarrow> reachable (st\<lparr>currentTime := now\<rparr>)"

section \<open>Warp engine: buffers and grain windows\<close>

text \<open>
  A sample of a \<open>Float32Array\<close>, and any JavaScript number computed from samples, is
  a real number or \<open>NaN\<close>. Rounding to 32 or 64 bits and overflow to Infinity are
  outside the model; \<open>NaN\<close> is in it, because the source can produce one from finite
  input (a remainder by zero, a read at an index that is not a number) and every
  operation then passes it on. The operations follow JavaScript: arithmetic with
  \<open>NaN\<close> is \<open>NaN\<close>, \<open>Math.max\<close> with a \<open>NaN\<close> argument is \<open>NaN\<close>, a comparison
  with \<open>NaN\<close> is false.
\<close>

datatype sample = Num real | NaN

fun sadd :: "sample \<Rightarrow> sample \<Rightarrow> sample" where
  "sadd (Num a) (Num b) = Num (a + b)"
| "sadd _ _ = NaN"

fun smul :: "sample \<Rightarrow> sample \<Rightarrow> sample" where
  "smul (Num a) (Num b) = Num (a * b)"
| "smul _ _ = NaN"

text \<open>The divisor is never zero where the source divides samples (it is a peak that
  was tested to exceed a positive bound); the model's value there is \<open>NaN\<close>.\<close>

fun sdiv :: "sample \<Rightarrow> sample \<Rightarrow> sample" where
  "sdiv (Num a) (Num b) = (if b = 0 then NaN else Num (a / b))"
| "sdiv _ _ = NaN"

fun sabs :: "sample \<Rightarrow> sample" where
  "sabs (Num a) = Num \<bar>a\<bar>"
| "sabs NaN = NaN"

fun smax :: "sample \<Rightarrow> sample \<Rightarrow> sample" where
  "smax (Num a) (Num b) = Num (max a b)"
| "smax _ _ = NaN"

fun sgt :: "sample \<Rightarrow> real \<Rightarrow> bool" where
  "sgt (Num a) c = (a > c)"
| "sgt NaN c = False"

text \<open>
  A read \<open>xs[i]\<close> of a typed array: out of range it is \<open>undefined\<close>, which the
  arithmetic around every read of the source turns into \<open>NaN\<close>. A write
  \<open>xs[k] += v\<close> or \<open>xs[k] = v\<close> out of range is ignored.
\<close>

definition jsGet :: "sample list \<Rightarrow> int \<Rightarrow> sample" where
  "jsGet xs i = (if 0 \<le> i \<and> i < int (length xs) then xs ! nat i else NaN)"

definition addAt :: "sample list \<Rightarrow> int \<Rightarrow> sample \<Rightarrow> sample list" where
  "addAt xs k v = (if 0 \<le> k \<and> k < int (length xs) then xs[nat k := sadd (xs ! nat k) v] else xs)"

definition setAt :: "sample list \<Rightarrow> int \<Rightarrow> sample \<Rightarrow> sample list" where
  "setAt xs k v = (if 0 \<le> k \<and> k < int (length xs) then xs[nat k := v] else xs)"

text \<open>\<open>Float32Array.prototype.slice(start, end)\<close>: a negative index counts from the
  end, and both are clamped to the array.\<close>

definition f32slice :: "sample list \<Rightarrow> int \<Rightarrow> int \<Rightarrow> sample list" where
  "f32slice xs first fin =
     (let len = int (length xs);
          k = (if first < 0 then max (len + first) 0 else min first len);
          final = (if fin < 0 then max (len + fin) 0 else min fin len)
      in take (nat (final - k)) (drop (nat k) xs))"

text \<open>An \<open>AudioBuffer\<close>: \<open>frames\<close> is its \<open>length\<close>, \<open>channelData\<close> its channels
  (\<open>numberOfChannels\<close> of them), \<open>duration\<close> is \<open>length / sampleRate\<close>.\<close>

record AudioBuffer =
  sampleRate :: real
  frames :: nat
  channelData :: "sample list list"

definition duration :: "AudioBuffer \<Rightarrow> Seconds" where
  "duration b = real (frames b) / sampleRate b"

datatype error = NotSupportedError | RangeError | NoSourceBuffer

text \<open>
  \<open>context.createBuffer(channels, length, sampleRate)\<close> of the Web Audio API: a buffer
  of zeros, and a \<open>NotSupportedError\<close> for a length below one frame.
\<close>

definition createBuffer :: "nat \<Rightarrow> int \<Rightarrow> real \<Rightarrow> error + AudioBuffer" where
  "createBuffer nch len rate =
     (if len < 1 then Inl NotSupportedError
      else Inr \<lparr>sampleRate = rate, frames = nat len,
                channelData = replicate nch (replicate (nat len) (Num 0))\<rparr>)"

record GrainWindow =
  w_data :: "sample list"
  w_size :: nat

definition hannWindow :: "nat \<Rightarrow> sample list" where
  "hannWindow n = map (\<lambda>i. Num (0.5 * (1 - cos ((2 * pi * real i) / (real n - 1))))) [0..<n]"

text \<open>
  \<open>initializeGrainWindows\<close> fills the table once, in the constructor; \<open>getGrainWindow\<close>
  picks the precomputed size closest to the requested one, the smaller on a tie. The
  table is the constant it is on every engine that has not been destroyed.
\<close>

definition grainWindowSizes :: "nat list" where
  "grainWindowSizes = [256, 512, 1024, 2048, 4096]"

definition initializeGrainWindows :: "(nat \<times> GrainWindow) list" where
  "initializeGrainWindows = map (\<lambda>n. (n, \<lparr>w_data = hannWindow n, w_size = n\<rparr>)) grainWindowSizes"

definition closestSize :: "int \<Rightarrow> nat" where
  "closestSize n =
     fold (\<lambda>s closest. if \<bar>int s - n\<bar> < \<bar>int closest - n\<bar> then s else closest)
       (sort (map fst initializeGrainWindows)) (hd (sort (map fst initializeGrainWindows)))"

definition getGrainWindow :: "int \<Rightarrow> GrainWindow" where
  "getGrainWindow n = \<lparr>w_data = hannWindow (closestSize n), w_size = closestSize n\<rparr>"

section \<open>Warp engine: stretching\<close>

text \<open>
  The inner loop shared by the three stretchers:
  \<open>for (i = 0; i < n && outputPos + i < output.length; i++) output[outputPos + i] += g(i)\<close>.
\<close>

function overlapAdd :: "(int \<Rightarrow> sample) \<Rightarrow> int \<Rightarrow> int \<Rightarrow> int \<Rightarrow> sample list \<Rightarrow> sample list" where
  "overlapAdd g n outputPos i output =
     (if i < n \<and> outputPos + i < int (length output)
      then overlapAdd g n outputPos (i + 1) (addAt output (outputPos + i) (g i))
      else output)"
  by pat_completeness auto
termination
  by (relation "measure (\<lambda>(g, n, outputPos, i, output). nat (n - i))") auto

declare overlapAdd.simps [simp del]

definition windowAt :: "GrainWindow \<Rightarrow> int \<Rightarrow> int \<Rightarrow> sample" where
  "windowAt window n i =
     jsGet (w_data window) \<lfloor>(real_of_int i / real_of_int n) * real (w_size window)\<rfloor>"

definition peak :: "sample list \<Rightarrow> sample" where
  "peak output = fold (\<lambda>x maxVal. smax maxVal (sabs x)) output (Num 0)"

text \<open>The closing normalisation of \<open>granularStretch\<close> and \<open>textureGranularStretch\<close>.\<close>

definition normalizePeak :: "sample list \<Rightarrow> sample list" where
  "normalizePeak output =
     (let maxVal = peak output
      in if sgt maxVal 1 then map (\<lambda>x. sdiv x maxVal) output else output)"

text \<open>
  The main loop of \<open>granularStretch\<close>. Both positions are integers (sums of the integer
  hops), so \<open>Math.floor(inputPos)\<close> is \<open>inputPos\<close>. The loop may run forever (a hop of
  zero): \<open>None\<close> is the call that does not return.
\<close>

partial_function (option) granularLoop ::
  "sample list \<Rightarrow> GrainWindow \<Rightarrow> int \<Rightarrow> int \<Rightarrow> int \<Rightarrow> int \<Rightarrow> int \<Rightarrow> sample list \<Rightarrow> sample list option" where
  "granularLoop input window gs hopIn hopOut inputPos outputPos output =
     (if outputPos < int (length output) - gs then
        (if inputPos \<ge> int (length input) - gs then Some output
         else granularLoop input window gs hopIn hopOut (inputPos + hopIn) (outputPos + hopOut)
                (overlapAdd
                   (\<lambda>i. smul (jsGet input (min (inputPos + i) (int (length input) - 1)))
                              (windowAt window gs i))
                   gs outputPos 0 output))
      else Some output)"

definition grainSamples :: "WarpSettings \<Rightarrow> int" where
  "grainSamples s = \<lfloor>(grainSize s / 1000) * 44100\<rfloor>"

definition granularStretch :: "WarpSettings \<Rightarrow> sample list \<Rightarrow> sample list \<Rightarrow> real \<Rightarrow> sample list option" where
  "granularStretch s input output ratio =
     (let gs = grainSamples s;
          hopIn = \<lfloor>real_of_int gs * 0.25\<rfloor>;
          hopOut = \<lfloor>real_of_int hopIn * ratio\<rfloor>;
          window = getGrainWindow gs
      in map_option normalizePeak
           (granularLoop input window gs hopIn hopOut 0 0 (replicate (length output) (Num 0))))"

text \<open>
  The remainder \<open>a % b\<close> of two numbers (the sign of the dividend, \<open>NaN\<close> for a zero
  divisor), and the grain start of \<open>textureGranularStretch\<close>: \<open>None\<close> is \<open>NaN\<close>, which
  the source gets from a remainder by zero and from \<open>outputPos / output.length\<close> on an
  empty output.
\<close>

definition jsRem :: "real \<Rightarrow> real \<Rightarrow> real option" where
  "jsRem a b =
     (if b = 0 then None
      else Some (a - b * real_of_int (if a / b \<ge> 0 then \<lfloor>a / b\<rfloor> else \<lceil>a / b\<rceil>)))"

definition textureStart :: "real \<Rightarrow> int \<Rightarrow> nat \<Rightarrow> int \<Rightarrow> int \<Rightarrow> int option" where
  "textureStart jitter outputPos outLen inputLength gs =
     (if outLen = 0 then None
      else map_option floor
             (jsRem ((real_of_int outputPos / real outLen) * real_of_int inputLength + jitter)
                    (real_of_int (inputLength - gs))))"

text \<open>
  The main loop of \<open>textureGranularStretch\<close>. \<open>random\<close> is the sequence of numbers
  \<open>Math.random()\<close> returns, \<open>k\<close> the number of draws made so far: one draw for the
  jitter of every iteration, one more for the amplitude when the grain is not skipped.
  A grain start that is \<open>NaN\<close> passes the range test (both comparisons are false) and
  reads \<open>input[NaN]\<close>, which is undefined.
\<close>

partial_function (option) textureLoop ::
  "(nat \<Rightarrow> real) \<Rightarrow> sample list \<Rightarrow> GrainWindow \<Rightarrow> int \<Rightarrow> int \<Rightarrow> nat \<Rightarrow> int \<Rightarrow> sample list
     \<Rightarrow> (nat \<times> sample list) option" where
  "textureLoop random input window gs hopOut k outputPos output =
     (if outputPos < int (length output) - gs then
        (case textureStart ((random k - 0.5) * real_of_int gs * 2) outputPos (length output)
                (int (length input)) gs of
           Some inStart \<Rightarrow>
             if inStart < 0 \<or> inStart \<ge> int (length input) - gs
             then textureLoop random input window gs hopOut (k + 1) (outputPos + hopOut) output
             else textureLoop random input window gs hopOut (k + 2) (outputPos + hopOut)
                    (overlapAdd
                       (\<lambda>i. smul (smul (jsGet input (inStart + i)) (windowAt window gs i))
                                  (Num (0.8 + random (k + 1) * 0.4)))
                       gs outputPos 0 output)
         | None \<Rightarrow>
             textureLoop random input window gs hopOut (k + 2) (outputPos + hopOut)
               (overlapAdd (\<lambda>i. NaN) gs outputPos 0 output))
      else Some (k, output))"

definition textureGranularStretch ::
  "WarpSettings \<Rightarrow> (nat \<Rightarrow> real) \<Rightarrow> nat \<Rightarrow> sample list \<Rightarrow> sample list \<Rightarrow> real
     \<Rightarrow> (nat \<times> sample list) option" where
  "textureGranularStretch s random k input output ratio =
     (let gs = grainSamples s;
          hopIn = \<lfloor>real_of_int gs * 0.25\<rfloor>;
          hopOut = \<lfloor>real_of_int hopIn * ratio\<rfloor>;
          window = getGrainWindow gs
      in map_option (\<lambda>(k1, out). (k1, normalizePeak out))
           (textureLoop random input window gs hopOut k 0 (replicate (length output) (Num 0))))"

text \<open>
  The main loop of \<open>phaseVocoderStretch\<close>: the input hop is the constant 512, so the
  loop leaves through its \<open>break\<close> at the latest and the function is total.
\<close>

function pvLoop :: "sample list \<Rightarrow> GrainWindow \<Rightarrow> int \<Rightarrow> int \<Rightarrow> int \<Rightarrow> sample list \<Rightarrow> sample list" where
  "pvLoop input window hopOut inputPos outputPos output =
     (if outputPos < int (length output) - 2048 then
        (if inputPos \<ge> int (length input) - 2048 then output
         else pvLoop input window hopOut (inputPos + 512) (outputPos + hopOut)
                (overlapAdd (\<lambda>i. smul (jsGet input (inputPos + i)) (windowAt window 2048 i))
                   2048 outputPos 0 output))
      else output)"
  by pat_completeness auto
termination
  by (relation "measure (\<lambda>(input, window, hopOut, inputPos, outputPos, output).
                  nat (int (length input) - 2048 - inputPos))") auto

declare pvLoop.simps [simp del]

definition phaseVocoderStretch :: "sample list \<Rightarrow> sample list \<Rightarrow> real \<Rightarrow> sample list" where
  "phaseVocoderStretch input output ratio =
     (let hopOut = \<lfloor>512 * ratio\<rfloor>;
          window = getGrainWindow 2048;
          out = pvLoop input window hopOut 0 0 (replicate (length output) (Num 0));
          maxVal = peak out
      in if sgt maxVal 0.01 then map (\<lambda>x. smul x (sdiv (Num 1) maxVal)) out else out)"

section \<open>Warp engine: process\<close>

record WarpEngine =
  sourceBuffer :: "AudioBuffer option"
  settings :: WarpSettings

definition newWarpEngine :: WarpEngine where
  "newWarpEngine =
     \<lparr>sourceBuffer = None,
      settings = \<lparr>enabled = True, mode = BeatsMode, originalBPM = 120, markers = [],
                  transientSensitivity = 0.5, grainSize = 50, preservePitch = True\<rparr>\<rparr>"

definition setWarpMode :: "WarpMode \<Rightarrow> WarpEngine \<Rightarrow> WarpEngine" where
  "setWarpMode m e = e\<lparr>settings := (settings e)\<lparr>mode := m\<rparr>\<rparr>"

text \<open>
  The result of a call that runs the stretchers: \<open>None\<close> when it never returns,
  \<open>Some (Inl err)\<close> when it throws (the promise of the \<open>async\<close> method rejects),
  \<open>Some (Inr v)\<close> when it returns \<open>v\<close>.
\<close>

type_synonym 'a outcome = "(error + 'a) option"

text \<open>The copy of a stretched segment into the output of \<open>processBeatsMode\<close>.\<close>

function copySegment :: "sample list \<Rightarrow> int \<Rightarrow> int \<Rightarrow> int \<Rightarrow> sample list \<Rightarrow> sample list" where
  "copySegment segmentOut targetLength outputPos j outputData =
     (if j < targetLength \<and> outputPos + j < int (length outputData)
      then copySegment segmentOut targetLength outputPos (j + 1)
             (setAt outputData (outputPos + j) (jsGet segmentOut j))
      else outputData)"
  by pat_completeness auto
termination
  by (relation "measure (\<lambda>(segmentOut, targetLength, outputPos, j, outputData). nat (targetLength - j))") auto

declare copySegment.simps [simp del]

text \<open>
  The marker loop of \<open>processBeatsMode\<close> from index \<open>i\<close>. \<open>new Float32Array(n)\<close> throws
  a \<open>RangeError\<close> for a negative \<open>n\<close>. A segment whose two markers fall on the same
  frame has \<open>inputLength = 0\<close> and an empty input slice; its ratio, a division by zero
  in the source, is the model's \<open>x / 0 = 0\<close>.
\<close>

function beatsSegments ::
  "WarpSettings \<Rightarrow> real \<Rightarrow> real \<Rightarrow> sample list \<Rightarrow> nat \<Rightarrow> int \<Rightarrow> sample list \<Rightarrow> (sample list) outcome" where
  "beatsSegments s rate stretchRatio inputData i outputPos outputData =
     (if i + 1 < length (markers s) then
        (let startMarker = markers s ! i;
             endMarker = markers s ! (i + 1);
             inputStart = \<lfloor>sampleTime startMarker * rate\<rfloor>;
             inputEnd = \<lfloor>sampleTime endMarker * rate\<rfloor>;
             inputLength = inputEnd - inputStart;
             targetStart = beatsToSeconds (beatTime startMarker * stretchRatio) (originalBPM s);
             targetEnd = beatsToSeconds (beatTime endMarker * stretchRatio) (originalBPM s);
             targetLength = \<lfloor>(targetEnd - targetStart) * rate\<rfloor>;
             segmentIn = f32slice inputData inputStart inputEnd
         in if targetLength < 0 then Some (Inl RangeError)
            else
              (case granularStretch s segmentIn (replicate (nat targetLength) (Num 0))
                      (real_of_int targetLength / real_of_int inputLength) of
                 None \<Rightarrow> None
               | Some segmentOut \<Rightarrow>
                   beatsSegments s rate stretchRatio inputData (i + 1) (outputPos + targetLength)
                     (copySegment segmentOut targetLength outputPos 0 outputData)))
      else Some (Inr outputData))"
  by pat_completeness auto
termination
  by (relation "measure (\<lambda>(s, rate, stretchRatio, inputData, i, outputPos, outputData).
                  length (markers s) - i)") auto

declare beatsSegments.simps [simp del]

text \<open>The loop over the channels, for a stretcher that may not return or may throw.\<close>

fun forChannels :: "(sample list \<Rightarrow> sample list \<Rightarrow> (sample list) outcome) \<Rightarrow> sample list list
    \<Rightarrow> sample list list \<Rightarrow> (sample list list) outcome" where
  "forChannels f [] outs = Some (Inr [])"
| "forChannels f (inputData # ins) [] = Some (Inr [])"
| "forChannels f (inputData # ins) (outputData # outs) =
     (case f inputData outputData of
        None \<Rightarrow> None
      | Some (Inl err) \<Rightarrow> Some (Inl err)
      | Some (Inr out) \<Rightarrow>
          (case forChannels f ins outs of
             None \<Rightarrow> None
           | Some (Inl err) \<Rightarrow> Some (Inl err)
           | Some (Inr rest) \<Rightarrow> Some (Inr (out # rest))))"

definition processBeatsMode :: "WarpEngine \<Rightarrow> Seconds \<Rightarrow> real \<Rightarrow> AudioBuffer outcome" where
  "processBeatsMode e targetDuration stretchRatio =
     (case sourceBuffer e of
        None \<Rightarrow> Some (Inl NoSourceBuffer)
      | Some src \<Rightarrow>
          (case createBuffer (length (channelData src)) \<lfloor>targetDuration * sampleRate src\<rfloor> (sampleRate src) of
             Inl err \<Rightarrow> Some (Inl err)
           | Inr outputBuffer \<Rightarrow>
               (case forChannels
                       (\<lambda>inputData outputData.
                          if length (markers (settings e)) < 2
                          then map_option Inr (granularStretch (settings e) inputData outputData stretchRatio)
                          else beatsSegments (settings e) (sampleRate src) stretchRatio inputData 0 0 outputData)
                       (channelData src) (channelData outputBuffer) of
                  None \<Rightarrow> None
                | Some (Inl err) \<Rightarrow> Some (Inl err)
                | Some (Inr chans) \<Rightarrow> Some (Inr (outputBuffer\<lparr>channelData := chans\<rparr>)))))"

definition processTonesMode :: "WarpEngine \<Rightarrow> Seconds \<Rightarrow> real \<Rightarrow> AudioBuffer outcome" where
  "processTonesMode e targetDuration stretchRatio =
     (case sourceBuffer e of
        None \<Rightarrow> Some (Inl NoSourceBuffer)
      | Some src \<Rightarrow>
          (case createBuffer (length (channelData src)) \<lfloor>targetDuration * sampleRate src\<rfloor> (sampleRate src) of
             Inl err \<Rightarrow> Some (Inl err)
           | Inr outputBuffer \<Rightarrow>
               Some (Inr (outputBuffer\<lparr>channelData :=
                  map (\<lambda>(inputData, outputData). phaseVocoderStretch inputData outputData stretchRatio)
                    (zip (channelData src) (channelData outputBuffer))\<rparr>))))"

text \<open>The channels of \<open>processTextureMode\<close>, one after the other on the same sequence of
  random numbers.\<close>

fun textureChannels :: "WarpSettings \<Rightarrow> (nat \<Rightarrow> real) \<Rightarrow> real \<Rightarrow> nat \<Rightarrow> sample list list
    \<Rightarrow> sample list list \<Rightarrow> (sample list list) option" where
  "textureChannels s random ratio k [] outs = Some []"
| "textureChannels s random ratio k (inputData # ins) [] = Some []"
| "textureChannels s random ratio k (inputData # ins) (outputData # outs) =
     (case textureGranularStretch s random k inputData outputData ratio of
        None \<Rightarrow> None
      | Some (k1, out) \<Rightarrow>
          (case textureChannels s random ratio k1 ins outs of
             None \<Rightarrow> None
           | Some rest \<Rightarrow> Some (out # rest)))"

definition processTextureMode :: "WarpEngine \<Rightarrow> (nat \<Rightarrow> real) \<Rightarrow> Seconds \<Rightarrow> real \<Rightarrow> AudioBuffer outcome" where
  "processTextureMode e random targetDuration stretchRatio =
     (case sourceBuffer e of
        None \<Rightarrow> Some (Inl NoSourceBuffer)
      | Some src \<Rightarrow>
          (case createBuffer (length (channelData src)) \<lfloor>targetDuration * sampleRate src\<rfloor> (sampleRate src) of
             Inl err \<Rightarrow> Some (Inl err)
           | Inr outputBuffer \<Rightarrow>
               (case textureChannels (settings e) random stretchRatio 0
                       (channelData src) (channelData outputBuffer) of
                  None \<Rightarrow> None
                | Some chans \<Rightarrow> Some (Inr (outputBuffer\<lparr>channelData := chans\<rparr>)))))"

definition processComplexMode :: "WarpEngine \<Rightarrow> Seconds \<Rightarrow> real \<Rightarrow> AudioBuffer outcome" where
  "processComplexMode e targetDuration stretchRatio = processTonesMode e targetDuration stretchRatio"

definition processRepitchMode :: "WarpEngine \<Rightarrow> Seconds \<Rightarrow> real \<Rightarrow> AudioBuffer outcome" where
  "processRepitchMode e targetDuration stretchRatio =
     (case sourceBuffer e of
        None \<Rightarrow> Some (Inl NoSourceBuffer)
      | Some src \<Rightarrow> Some (Inr src))"

text \<open>
  \<open>process\<close>: the value is \<open>None\<close> for JavaScript's \<open>null\<close>, \<open>Some b\<close> for the buffer
  \<open>b\<close>. \<open>random\<close> is the sequence of numbers \<open>Math.random()\<close> returns during the call.
\<close>

definition process :: "WarpEngine \<Rightarrow> (nat \<Rightarrow> real) \<Rightarrow> Seconds \<Rightarrow> (AudioBuffer option) outcome" where
  "process e random targetDuration =
     (case sourceBuffer e of
        None \<Rightarrow> Some (Inr None)
      | Some src \<Rightarrow>
          if \<not> enabled (settings e) then Some (Inr (Some src))
          else
            (let sourceDuration = duration src;
                 stretchRatio = targetDuration / sourceDuration
             in case mode (settings e) of
                  BeatsMode \<Rightarrow> map_option (map_sum id Some) (processBeatsMode e targetDuration stretchRatio)
                | TonesMode \<Rightarrow> map_option (map_sum id Some) (processTonesMode e targetDuration stretchRatio)
                | TextureMode \<Rightarrow> map_option (map_sum id Some) (processTextureMode e random targetDuration stretchRatio)
                | ComplexMode \<Rightarrow> map_option (map_sum id Some) (processComplexMode e targetDuration stretchRatio)
                | RepitchMode \<Rightarrow> map_option (map_sum id Some) (processRepitchMode e targetDuration stretchRatio)
                | OffMode \<Rightarrow> Some (Inr (Some src))))"

section \<open>Observations and scenarios used in the statements\<close>

text \<open>
  The slots of the \<open>clip-started\<close> events emitted so far for track \<open>t\<close>, in order.
\<close>

definition startedOn :: "string \<Rightarrow> ClipLauncher \<Rightarrow> nat list" where
  "startedOn t st =
     concat (map (\<lambda>e. case e of ClipStarted k s \<Rightarrow> if k = t then [s] else [] | _ \<Rightarrow> []) (emitted st))"

text \<open>
  Every entry of the \<open>triggered\<close> map refers to an object of the heap whose \<open>trackId\<close>
  is the key it is stored under. \<open>launchClip\<close> is the only writer of the map and stores
  the object it has just created under the track it was created for.
\<close>

definition keysMatch :: "ClipLauncher \<Rightarrow> bool" where
  "keysMatch st = list_all (\<lambda>(k, r). r < length (heap st) \<and> trackId (heap st ! r) = k) (triggered st)"

text \<open>No entry of the \<open>triggered\<close> map is a clip of track \<open>t\<close>.\<close>

definition noPending :: "string \<Rightarrow> ClipLauncher \<Rightarrow> bool" where
  "noPending t st = list_all (\<lambda>(k, r). r < length (heap st) \<and> trackId (heap st ! r) \<noteq> t) (triggered st)"

text \<open>
  \<open>quiet t st st'\<close>: from \<open>st\<close> to \<open>st'\<close> no object changed its track, no entry was
  added to the \<open>triggered\<close> map and no \<open>clip-started\<close> event was emitted for track \<open>t\<close>.
\<close>

definition quiet :: "string \<Rightarrow> ClipLauncher \<Rightarrow> ClipLauncher \<Rightarrow> bool" where
  "quiet t st st' =
     (map trackId (heap st') = map trackId (heap st)
      \<and> set (triggered st') \<subseteq> set (triggered st)
      \<and> startedOn t st' = startedOn t st)"

text \<open>
  \<open>frame a b\<close>: \<open>b\<close> differs from \<open>a\<close> at most in the events and MIDI messages sent and
  in fields of heap objects other than \<open>launchTime\<close>, \<open>trackId\<close> and \<open>clip\<close>.
\<close>

definition frame :: "ClipLauncher \<Rightarrow> ClipLauncher \<Rightarrow> bool" where
  "frame a b =
     (playing b = playing a \<and> triggered b = triggered a \<and> stopping b = stopping a
      \<and> bpm b = bpm a \<and> globalQuantization b = globalQuantization a
      \<and> transportState b = transportState a \<and> position b = position a
      \<and> startTime b = startTime a \<and> currentTime b = currentTime a
      \<and> map launchTime (heap b) = map launchTime (heap a)
      \<and> map trackId (heap b) = map trackId (heap a)
      \<and> map clip (heap b) = map clip (heap a))"

text \<open>
  The scheduled clips the launcher holds for a track (the objects its three maps refer
  to under that track), and those of them whose \<open>state\<close> is \<open>playing\<close>.
\<close>

definition trackedRefs :: "ClipLauncher \<Rightarrow> string \<Rightarrow> nat list" where
  "trackedRefs st tid =
     remdups (List.map_filter (\<lambda>m. map_of m tid) [playing st, triggered st, stopping st])"

definition playingOn :: "ClipLauncher \<Rightarrow> string \<Rightarrow> nat list" where
  "playingOn st tid = filter (\<lambda>r. state (heap st ! r) = Playing) (trackedRefs st tid)"

text \<open>
  A session at 120 bpm: the transport starts at beat 0; clip A (no legato) is launched
  unquantised on track \<open>t\<close> and a tick runs (\<open>playingA\<close>); at beat 1 (0.5 s) clip B, whose
  legato mode is \<open>legato\<close>, is launched on the same track with quantisation \<open>1-bar\<close>
  (\<open>legatoLaunched\<close>); a tick runs at beat 1.2 (\<open>legatoTicked\<close>).
\<close>

definition plainClip :: Clip where
  "plainClip = \<lparr>c_id = ''A'', c_duration = 4, loopEnabled = None, loopStart = None, loopEnd = None,
                legato = None, followAction = None, content = Midi []\<rparr>"

definition legatoClip :: Clip where
  "legatoClip = \<lparr>c_id = ''B'', c_duration = 4, loopEnabled = None, loopStart = None, loopEnd = None,
                 legato = Some Legato, followAction = None, content = Midi []\<rparr>"

definition playingA :: ClipLauncher where
  "playingA = tick (\<lambda>k. 0) (launchClip ''t'' 0 plainClip QNone (start 0 (newClipLauncher 0)))"

definition legatoLaunched :: ClipLauncher where
  "legatoLaunched = launchClip ''t'' 1 legatoClip Q1Bar (playingA\<lparr>currentTime := 1/2\<rparr>)"

definition legatoTicked :: ClipLauncher where
  "legatoTicked = tick (\<lambda>k. 0) (legatoLaunched\<lparr>currentTime := 3/5\<rparr>)"

text \<open>
  Two scenes launched with quantisation \<open>1-bar\<close>. \<open>sceneLegato\<close>, on the session
  above with the clock at 0.5 s (beat 1) for both launches: the legato clip B on track
  \<open>t\<close>, where A is playing, and the plain clip A on the empty track \<open>u\<close>.
  \<open>sceneClock\<close>, on an empty session whose transport started at 0 s: the plain clip A
  on the tracks \<open>t\<close> and \<open>u\<close>, where the first launch reads the clock at 1.99 s
  (beat 3.98) and the second at 2.01 s (beat 4.02).
\<close>

definition sceneLegato :: ClipLauncher where
  "sceneLegato =
     launchScene (\<lambda>k. 1/2) [(''t'', 1, legatoClip), (''u'', 0, plainClip)] Q1Bar playingA"

definition sceneClock :: ClipLauncher where
  "sceneClock =
     launchScene (\<lambda>k. if k = 0 then 199/100 else 201/100)
       [(''t'', 0, plainClip), (''u'', 0, plainClip)] Q1Bar (start 0 (newClipLauncher 0))"

text \<open>A clip launched at beat 1 with quantisation \<open>1-bar\<close> on an empty session: it waits
  for beat 4.\<close>

definition pendingA :: ClipLauncher where
  "pendingA = launchClip ''t'' 0 plainClip Q1Bar ((start 0 (newClipLauncher 0))\<lparr>currentTime := 1/2\<rparr>)"

text \<open>
  Engines for the stretch scenarios. \<open>longSource\<close> is one channel of 60 s at 44.1 kHz;
  \<open>grainSource\<close> is one channel of four frames, the grain size of \<open>shortGrains\<close>
  (0.1 ms at the internal rate of 44.1 kHz).
\<close>

definition textureSettings :: "WarpMarker list \<Rightarrow> real \<Rightarrow> WarpSettings" where
  "textureSettings ms grainMs =
     \<lparr>enabled = True, mode = TextureMode, originalBPM = 120, markers = ms,
      transientSensitivity = 0.5, grainSize = grainMs, preservePitch = True\<rparr>"

definition longSource :: AudioBuffer where
  "longSource = \<lparr>sampleRate = 44100, frames = 2646000, channelData = [replicate 2646000 (Num 0)]\<rparr>"

definition grainSource :: AudioBuffer where
  "grainSource = \<lparr>sampleRate = 44100, frames = 4,
                   channelData = [[Num (1/2), Num (1/2), Num (1/2), Num (1/2)]]\<rparr>"

section \<open>Results: time base and warp markers\<close>



















text \<open>
  C7. Inverse consistency of the warp map: with the markers \<open>(0,0)\<close>, \<open>(1,2)\<close>,
  \<open>(2,4.5)\<close> (sample time, beat time), mapping a sample time \<open>x\<close> of the interval
  \<open>[0, 2]\<close> to beats and back returns \<open>x\<close>, whatever the other settings are.
\<close>

theorem warp_inverse_consistency:
  assumes "markers s = specMarkers" and "0 \<le> x" and "x \<le> 2"
  shows "beatToSample s (sampleToBeat s x) = x"
proof (cases "x \<le> 1")
  case True
  then show ?thesis
    using assms
    by (simp add: beatToSample_def sampleToBeat_def specMarkers_def
          sampleToBeatLoop.simps beatToSampleLoop.simps)
next
  case False
  then show ?thesis
    using assms
    by (simp add: beatToSample_def sampleToBeat_def specMarkers_def
          sampleToBeatLoop.simps beatToSampleLoop.simps field_simps)
qed

theorem warp_inverse_consistency_witness:
  "markers (textureSettings specMarkers 50) = specMarkers \<and> (0::real) \<le> 3/2 \<and> (3/2::real) \<le> 2
   \<and> sampleToBeat (textureSettings specMarkers 50) (3/2) = 13/4
   \<and> beatToSample (textureSettings specMarkers 50) (sampleToBeat (textureSettings specMarkers 50) (3/2)) = 3/2"
proof -
  have m: "markers (textureSettings specMarkers 50) = specMarkers"
    by (simp add: textureSettings_def)
  have b: "sampleToBeat (textureSettings specMarkers 50) (3/2) = 13/4"
    by (simp add: sampleToBeat_def textureSettings_def specMarkers_def sampleToBeatLoop.simps)
  have w: "beatToSample (textureSettings specMarkers 50) (sampleToBeat (textureSettings specMarkers 50) (3/2)) = 3/2"
    using warp_inverse_consistency[OF m, of "3/2"] by simp
  show ?thesis
    by (intro conjI; (rule m b w | simp))
qed

section \<open>Results: clip launcher\<close>

subsection \<open>Frames of the operations\<close>

lemma quiet_refl [simp]: "quiet t st st"
  by (simp add: quiet_def)

lemma quiet_trans: "quiet t a b \<Longrightarrow> quiet t b c \<Longrightarrow> quiet t a c"
  by (auto simp: quiet_def)

lemma map_update_same: "(\<And>x. g (f x) = g x) \<Longrightarrow> map g (xs[i := f (xs ! i)]) = map g xs"
  by (cases "i < length xs") (simp_all add: map_update list_update_same_conv list_update_beyond)

lemma quiet_modify: "(\<And>x. trackId (f x) = trackId x) \<Longrightarrow> quiet t st s \<Longrightarrow> quiet t st (modify r f s)"
  by (simp add: quiet_def modify_def map_update_same startedOn_def)

lemma quiet_emit: "(\<And>s. e \<noteq> ClipStarted t s) \<Longrightarrow> quiet t st s \<Longrightarrow> quiet t st (emit e s)"
  by (cases e) (auto simp: quiet_def emit_def startedOn_def)

lemma quiet_sendMidi: "quiet t st s \<Longrightarrow> quiet t st (sendMidi m s)"
  by (simp add: quiet_def sendMidi_def startedOn_def)

lemma quiet_fold:
  assumes "\<And>x s. quiet t st s \<Longrightarrow> quiet t st (f x s)" and "quiet t st s"
  shows "quiet t st (fold f xs s)"
  using assms(2) by (induction xs arbitrary: s) (simp_all add: assms(1))

lemma quiet_playing: "quiet t st s \<Longrightarrow> quiet t st (s\<lparr>playing := m\<rparr>)"
  by (simp add: quiet_def startedOn_def)

lemma quiet_stopping: "quiet t st s \<Longrightarrow> quiet t st (s\<lparr>stopping := m\<rparr>)"
  by (simp add: quiet_def startedOn_def)

lemma set_delete_subset: "set (AList.delete k al) \<subseteq> set al"
  by (induction al) auto

lemma quiet_triggered_delete: "quiet t st s \<Longrightarrow> quiet t st (s\<lparr>triggered := AList.delete k (triggered s)\<rparr>)"
  using set_delete_subset[of k "triggered s"] by (auto simp: quiet_def startedOn_def)

lemma quiet_Let: "quiet t st (f v) \<Longrightarrow> quiet t st (Let v f)"
  by simp

lemma quiet_if: "(c \<Longrightarrow> quiet t st a) \<Longrightarrow> (\<not> c \<Longrightarrow> quiet t st b) \<Longrightarrow> quiet t st (if c then a else b)"
  by simp

lemma quiet_case_option:
  "(x = None \<Longrightarrow> quiet t st a) \<Longrightarrow> (\<And>y. x = Some y \<Longrightarrow> quiet t st (b y))
   \<Longrightarrow> quiet t st (case x of None \<Rightarrow> a | Some y \<Rightarrow> b y)"
  by (cases x) simp_all

lemma quiet_case_content:
  "(\<And>y. x = Audio y \<Longrightarrow> quiet t st (a y)) \<Longrightarrow> (\<And>y. x = Midi y \<Longrightarrow> quiet t st (b y))
   \<Longrightarrow> quiet t st (case x of Audio y \<Rightarrow> a y | Midi y \<Rightarrow> b y)"
  by (cases x) simp_all

lemma quiet_case_action:
  "quiet t st a \<Longrightarrow> quiet t st b \<Longrightarrow> quiet t st (case x of FStop \<Rightarrow> b | _ \<Rightarrow> a)"
  by (cases x) simp_all

lemmas quiet_basic = quiet_triggered_delete quiet_stopping quiet_playing quiet_modify quiet_emit quiet_fold
  quiet_sendMidi quiet_Let quiet_if quiet_case_option quiet_case_content quiet_case_action

lemma quiet_stopScheduledClip: "quiet t st s \<Longrightarrow> quiet t st (stopScheduledClip r s)"
  unfolding stopScheduledClip_def
  by (intro quiet_basic | (simp; fail))+

lemma quiet_stopClip: "quiet t st s \<Longrightarrow> quiet t st (stopClip k q s)"
  unfolding stopClip_def
  by (intro quiet_basic quiet_stopScheduledClip | (simp; fail))+

lemma quiet_processFollowAction: "quiet t st s \<Longrightarrow> quiet t st (processFollowAction r fa x s)"
  unfolding processFollowAction_def
  by (intro quiet_basic quiet_stopClip | (simp; fail))+

lemma quiet_processPlayingClip: "quiet t st s \<Longrightarrow> quiet t st (processPlayingClip r pos now x s)"
  unfolding processPlayingClip_def processMidiEvents_def rescheduleMIDI_def
  by (intro quiet_basic quiet_stopScheduledClip quiet_processFollowAction | (simp; fail))+

lemma nth_update_same_field: "(\<And>x. g (f x) = g x) \<Longrightarrow> g (xs[i := f (xs ! i)] ! j) = g (xs ! j)"
  by (cases "i < length xs"; cases "i = j") (simp_all add: list_update_beyond)

lemma quiet_nth:
  assumes "quiet t st s" and "r < length (heap st)"
  shows "r < length (heap s) \<and> trackId (heap s ! r) = trackId (heap st ! r)"
proof -
  from assms(1) have m: "map trackId (heap s) = map trackId (heap st)"
    by (simp add: quiet_def)
  then have l: "length (heap s) = length (heap st)"
    by (rule map_eq_imp_length_eq)
  with assms(2) have "trackId (heap s ! r) = map trackId (heap s) ! r"
    by simp
  also have "\<dots> = trackId (heap st ! r)"
    using m assms(2) by simp
  finally show ?thesis using l assms(2) by simp
qed

lemma quiet_startAudioClip: "quiet t st s \<Longrightarrow> quiet t st (startAudioClip r c regions s)"
  unfolding startAudioClip_def
  by (intro quiet_basic | (simp; fail))+

lemma quiet_startMIDIClip: "quiet t st s \<Longrightarrow> quiet t st (startMIDIClip r notes s)"
  unfolding startMIDIClip_def
  by (intro quiet_basic | (simp; fail))+

lemma quiet_startClip:
  assumes "trackId (heap s ! r) \<noteq> t" and "quiet t st s"
  shows "quiet t st (startClip r s)"
proof -
  have "trackId (heap (modify r (\<lambda>s. s\<lparr>state := Playing\<rparr>) s) ! r) \<noteq> t"
    using assms(1) by (simp add: modify_def nth_update_same_field)
  then show ?thesis
    unfolding startClip_def using assms(2)
    by (intro quiet_basic quiet_startAudioClip quiet_startMIDIClip | (simp; fail))+
qed

lemma quiet_triggered_loop:
  assumes "list_all (\<lambda>(k, r). r < length (heap st) \<and> trackId (heap st ! r) \<noteq> t) xs" and "quiet t st s"
  shows "quiet t st (fold (\<lambda>(tid, r) s.
                      if present (triggered s) tid r \<and> pos \<ge> launchTime (heap s ! r)
                      then (let s1 = startClip r s
                            in s1\<lparr>triggered := AList.delete tid (triggered s1)\<rparr>)
                      else s) xs s)"
  using assms
proof (induction xs arbitrary: s)
  case Nil
  then show ?case by simp
next
  case (Cons x xs)
  obtain k r where x: "x = (k, r)" by (cases x)
  from Cons.prems x have "r < length (heap st)" and "trackId (heap st ! r) \<noteq> t"
    by simp_all
  with quiet_nth[OF Cons.prems(2)] have ne: "trackId (heap s ! r) \<noteq> t"
    by simp
  have "quiet t st (if present (triggered s) k r \<and> pos \<ge> launchTime (heap s ! r)
                      then (let s1 = startClip r s
                            in s1\<lparr>triggered := AList.delete k (triggered s1)\<rparr>)
                      else s)"
    using ne Cons.prems(2)
    by (intro quiet_basic quiet_startClip | (simp; fail))+
  then show ?case
    using Cons.IH Cons.prems(1) by (simp add: x)
qed

lemma quiet_tick:
  assumes "noPending t st"
  shows "quiet t st (tick random st)"
  unfolding tick_def
  by (intro quiet_basic quiet_triggered_loop quiet_stopScheduledClip quiet_processPlayingClip
        assms[unfolded noPending_def] | (simp add: case_prod_beta; fail) | simp only: case_prod_beta)+


lemma noPending_quiet:
  assumes "noPending t st" and "quiet t st s"
  shows "noPending t s"
  unfolding noPending_def list_all_iff
proof (intro ballI)
  fix x assume xin: "x \<in> set (triggered s)"
  obtain k r where x: "x = (k, r)" by (cases x)
  from xin assms(2) have "x \<in> set (triggered st)"
    by (auto simp: quiet_def)
  with assms(1) x have "r < length (heap st)" and "trackId (heap st ! r) \<noteq> t"
    by (auto simp: noPending_def list_all_iff)
  with quiet_nth[OF assms(2)] show "case x of (k, r) \<Rightarrow> r < length (heap s) \<and> trackId (heap s ! r) \<noteq> t"
    by (simp add: x)
qed

lemma quiet_currentTime: "quiet t st s \<Longrightarrow> quiet t st (s\<lparr>currentTime := tm\<rparr>)"
  by (simp add: quiet_def startedOn_def)

lemma quiet_runTicks:
  assumes "noPending t st"
  shows "quiet t st (runTicks ts st)"
  using assms
proof (induction ts arbitrary: st)
  case Nil
  then show ?case by (simp add: runTicks_def)
next
  case (Cons x ts)
  obtain tm random where x: "x = (tm, random)" by (cases x)
  let ?s0 = "st\<lparr>currentTime := tm\<rparr>"
  have q0: "quiet t st ?s0" by (simp add: quiet_currentTime)
  have n0: "noPending t ?s0" by (rule noPending_quiet[OF Cons.prems q0])
  have q1: "quiet t ?s0 (tick random ?s0)" by (rule quiet_tick[OF n0])
  have n1: "noPending t (tick random ?s0)" by (rule noPending_quiet[OF n0 q1])
  have "quiet t (tick random ?s0) (runTicks ts (tick random ?s0))"
    by (rule Cons.IH[OF n1])
  with q0 q1 have "quiet t st (runTicks ts (tick random ?s0))"
    by (blast intro: quiet_trans)
  then show ?case by (simp add: runTicks_def x)
qed

lemma frame_refl [simp]: "frame a a"
  by (simp add: frame_def)

lemma frame_modify:
  "(\<And>x. launchTime (f x) = launchTime x) \<Longrightarrow> (\<And>x. trackId (f x) = trackId x)
   \<Longrightarrow> (\<And>x. clip (f x) = clip x) \<Longrightarrow> frame a s \<Longrightarrow> frame a (modify r f s)"
  by (simp add: frame_def modify_def map_update_same)

lemma frame_emit: "frame a s \<Longrightarrow> frame a (emit e s)"
  by (simp add: frame_def emit_def)

lemma frame_sendMidi: "frame a s \<Longrightarrow> frame a (sendMidi m s)"
  by (simp add: frame_def sendMidi_def)

lemma frame_fold:
  assumes "\<And>x s. frame a s \<Longrightarrow> frame a (f x s)" and "frame a s"
  shows "frame a (fold f xs s)"
  using assms(2) by (induction xs arbitrary: s) (simp_all add: assms(1))

lemma frame_Let: "frame a (f v) \<Longrightarrow> frame a (Let v f)"
  by simp

lemma frame_if: "(c \<Longrightarrow> frame a x) \<Longrightarrow> (\<not> c \<Longrightarrow> frame a y) \<Longrightarrow> frame a (if c then x else y)"
  by simp

lemmas frame_basic = frame_modify frame_emit frame_sendMidi frame_fold frame_Let frame_if

lemma frame_stopScheduledClip: "frame a s \<Longrightarrow> frame a (stopScheduledClip r s)"
  unfolding stopScheduledClip_def
  by (intro frame_basic | (simp; fail))+

lemma frame_startAudioClip: "frame a s \<Longrightarrow> frame a (startAudioClip r c regions s)"
  unfolding startAudioClip_def
  by (intro frame_basic | (simp; fail))+

lemma frame_startMIDIClip: "frame a s \<Longrightarrow> frame a (startMIDIClip r notes s)"
  unfolding startMIDIClip_def
  by (intro frame_basic | (simp; fail))+

lemma frame_startClip:
  "frame ((modify r (\<lambda>x. x\<lparr>state := Playing\<rparr>) s)\<lparr>playing := AList.update (trackId (heap s ! r)) r (playing s)\<rparr>)
         (startClip r s)"
proof -
  have t: "trackId (heap (modify r (\<lambda>x. x\<lparr>state := Playing\<rparr>) s) ! r) = trackId (heap s ! r)"
    by (simp add: modify_def nth_update_same_field)
  have p: "playing (modify r (\<lambda>x. x\<lparr>state := Playing\<rparr>) s) = playing s"
    by (simp add: modify_def)
  show ?thesis
    unfolding startClip_def Let_def t p
    by (cases "content (clip (heap (modify r (\<lambda>x. x\<lparr>state := Playing\<rparr>) s) ! r))")
       (simp_all add: frame_emit frame_startAudioClip frame_startMIDIClip)
qed

lemma startClip_fields:
  "triggered (startClip r s) = triggered s"
  "playing (startClip r s) = AList.update (trackId (heap s ! r)) r (playing s)"
  "bpm (startClip r s) = bpm s"
  "globalQuantization (startClip r s) = globalQuantization s"
  "getPosition (startClip r s) = getPosition s"
  "map launchTime (heap (startClip r s)) = map launchTime (heap s)"
  "map clip (heap (startClip r s)) = map clip (heap s)"
  "transportState (startClip r s) = transportState s"
  "position (startClip r s) = position s"
  "startTime (startClip r s) = startTime s"
  using frame_startClip[where r = r and s = s]
  by (simp_all add: frame_def modify_def getPosition_def map_update_same)

lemma triggered_stopClip: "triggered (stopClip t q st) = AList.delete t (triggered st)"
  using frame_stopScheduledClip[OF frame_refl]
  by (simp add: stopClip_def Let_def modify_def frame_def split: option.splits)

lemma noPending_stopClip:
  assumes "keysMatch st"
  shows "noPending t (stopClip t q st)"
  unfolding noPending_def list_all_iff
proof (intro ballI)
  fix x assume xin: "x \<in> set (triggered (stopClip t q st))"
  obtain k r where x: "x = (k, r)" by (cases x)
  from xin x have "(k, r) \<in> set (triggered st)" and "k \<noteq> t"
    by (auto simp: triggered_stopClip AList.delete_eq)
  with assms have "r < length (heap st)" and "trackId (heap st ! r) \<noteq> t"
    by (auto simp: keysMatch_def list_all_iff)
  moreover have "quiet t st (stopClip t q st)"
    by (simp add: quiet_stopClip)
  ultimately
  show "case x of (k, r) \<Rightarrow> r < length (heap (stopClip t q st)) \<and> trackId (heap (stopClip t q st) ! r) \<noteq> t"
    using quiet_nth[of t st "stopClip t q st" r] by (simp add: x)
qed


subsection \<open>Fields after a launch\<close>

lemma modify_fields [simp]:
  "playing (modify r f s) = playing s"
  "triggered (modify r f s) = triggered s"
  "stopping (modify r f s) = stopping s"
  "bpm (modify r f s) = bpm s"
  "globalQuantization (modify r f s) = globalQuantization s"
  "getPosition (modify r f s) = getPosition s"
  "length (heap (modify r f s)) = length (heap s)"
  "transportState (modify r f s) = transportState s"
  "position (modify r f s) = position s"
  "startTime (modify r f s) = startTime s"
  by (simp_all add: modify_def getPosition_def)

lemma trackId_modify [simp]:
  "(\<And>x. trackId (f x) = trackId x) \<Longrightarrow> trackId (heap (modify p f s) ! j) = trackId (heap s ! j)"
  by (simp add: modify_def nth_update_same_field)

lemma launchTimes_modify [simp]:
  "(\<And>x. launchTime (f x) = launchTime x) \<Longrightarrow> map launchTime (heap (modify p f s)) = map launchTime (heap s)"
  by (simp add: modify_def map_update_same)

lemma launchTimes_modify_set [simp]:
  "map launchTime (heap (modify r (\<lambda>x. x\<lparr>launchTime := v\<rparr>) s)) = (map launchTime (heap s))[r := v]"
  by (simp add: modify_def map_update)

lemma getPosition_upd [simp]:
  "getPosition (s\<lparr>heap := h\<rparr>) = getPosition s"
  "getPosition (s\<lparr>stopping := m\<rparr>) = getPosition s"
  "getPosition (s\<lparr>triggered := m\<rparr>) = getPosition s"
  "getPosition (s\<lparr>playing := m\<rparr>) = getPosition s"
  by (simp_all add: getPosition_def)

lemma launchClip_bpm: "bpm (launchClip tid slot c q s) = bpm s"
  by (simp add: launchClip_def Let_def startClip_fields split: option.splits)

lemma launchClip_gq: "globalQuantization (launchClip tid slot c q s) = globalQuantization s"
  by (simp add: launchClip_def Let_def startClip_fields split: option.splits)

lemma launchClip_getPosition: "getPosition (launchClip tid slot c q s) = getPosition s"
  by (simp add: launchClip_def Let_def startClip_fields split: option.splits)

lemma launchClip_triggered:
  "map_of (triggered (launchClip tid slot c q s)) = (map_of (triggered s))(tid \<mapsto> length (heap s))"
  by (simp add: launchClip_def Let_def startClip_fields update_conv' split: option.splits)

lemma launchClip_playing:
  "k \<noteq> tid \<Longrightarrow> map_of (playing (launchClip tid slot c q s)) k = map_of (playing s) k"
  by (simp add: launchClip_def Let_def startClip_fields update_conv' split: option.splits)

lemma update_last_map: "(map g xs @ [a])[length xs := b] = map g xs @ [b]"
  by (simp add: list_update_append)

lemma launchClip_launchTimes:
  "map launchTime (heap (launchClip tid slot c q s)) = map launchTime (heap s) @
     [if map_of (playing s) tid \<noteq> None \<and> legato c = Some Legato then getPosition s
      else getNextQuantizedBeat (getPosition s) (if q = QGlobal then globalQuantization s else q) (bpm s)]"
  by (simp add: launchClip_def Let_def startClip_fields update_last_map split: option.splits)

lemma clips_modify [simp]:
  "(\<And>x. clip (f x) = clip x) \<Longrightarrow> map clip (heap (modify p f s)) = map clip (heap s)"
  by (simp add: modify_def map_update_same)

lemma launchClip_clips:
  "map clip (heap (launchClip tid slot c q s)) = map clip (heap s) @ [c]"
  by (simp add: launchClip_def Let_def startClip_fields split: option.splits)

lemma launchClip_transport:
  "transportState (launchClip tid slot c q s) = transportState s"
  "position (launchClip tid slot c q s) = position s"
  "startTime (launchClip tid slot c q s) = startTime s"
  by (simp_all add: launchClip_def Let_def startClip_fields split: option.splits)

subsection \<open>The keys of the triggered map\<close>

lemma keysMatch_quiet:
  assumes "keysMatch st" and "quiet t st s"
  shows "keysMatch s"
  unfolding keysMatch_def list_all_iff
proof (intro ballI)
  fix x assume xin: "x \<in> set (triggered s)"
  obtain k r where x: "x = (k, r)" by (cases x)
  from xin assms(2) have "x \<in> set (triggered st)"
    by (auto simp: quiet_def)
  with assms(1) x have "r < length (heap st)" and "trackId (heap st ! r) = k"
    by (auto simp: keysMatch_def list_all_iff)
  with quiet_nth[OF assms(2)] show "case x of (k, r) \<Rightarrow> r < length (heap s) \<and> trackId (heap s ! r) = k"
    by (simp add: x)
qed

lemma keysMatch_new: "keysMatch (newClipLauncher now)"
  by (simp add: keysMatch_def newClipLauncher_def)

lemma keysMatch_stopClip: "keysMatch st \<Longrightarrow> keysMatch (stopClip t q st)"
  using keysMatch_quiet[OF _ quiet_stopClip[OF quiet_refl]] by blast

lemma keysMatch_clock: "keysMatch st \<Longrightarrow> keysMatch (st\<lparr>currentTime := tm\<rparr>)"
  by (simp add: keysMatch_def)

lemma keysMatch_tick:
  assumes "keysMatch st"
  shows "keysMatch (tick random st)"
proof -
  have "finite (fst ` set (triggered st))" by simp
  then obtain t where t: "t \<notin> fst ` set (triggered st)"
    using ex_new_if_finite[OF infinite_UNIV_listI] by blast
  have "noPending t st"
    unfolding noPending_def list_all_iff
  proof (intro ballI)
    fix x assume xin: "x \<in> set (triggered st)"
    obtain k r where x: "x = (k, r)" by (cases x)
    from xin x t have "k \<noteq> t" by force
    moreover from assms xin x have "r < length (heap st)" and "trackId (heap st ! r) = k"
      by (auto simp: keysMatch_def list_all_iff)
    ultimately show "case x of (k, r) \<Rightarrow> r < length (heap st) \<and> trackId (heap st ! r) \<noteq> t"
      by (simp add: x)
  qed
  then show ?thesis
    using keysMatch_quiet[OF assms quiet_tick] by blast
qed

lemma trackIds_modify [simp]:
  "(\<And>x. trackId (f x) = trackId x) \<Longrightarrow> map trackId (heap (modify p f s)) = map trackId (heap s)"
  by (simp add: modify_def map_update_same)

lemma trackIds_startClip: "map trackId (heap (startClip r s)) = map trackId (heap s)"
  using frame_startClip[where r = r and s = s] by (simp add: frame_def)

lemma trackIds_launchClip:
  "map trackId (heap (launchClip tid slot c q s)) = map trackId (heap s) @ [tid]"
  by (simp add: launchClip_def Let_def trackIds_startClip split: option.splits)

lemma triggered_launchClip:
  "triggered (launchClip tid slot c q s) = AList.update tid (length (heap s)) (triggered s)"
  by (simp add: launchClip_def Let_def startClip_fields split: option.splits)

lemma set_update_subset: "set (AList.update k v al) \<subseteq> insert (k, v) (set al)"
  by (induction al) auto

lemma keysMatch_launchClip:
  assumes "keysMatch st"
  shows "keysMatch (launchClip tid slot c q st)"
  unfolding keysMatch_def list_all_iff
proof (intro ballI)
  let ?s = "launchClip tid slot c q st"
  fix x assume xin: "x \<in> set (triggered ?s)"
  obtain k r where x: "x = (k, r)" by (cases x)
  have ids: "map trackId (heap ?s) = map trackId (heap st) @ [tid]"
    by (rule trackIds_launchClip)
  have len: "length (heap ?s) = Suc (length (heap st))"
    using arg_cong[OF trackIds_launchClip[of tid slot c q st], of length] by simp
  from xin x have "(k, r) = (tid, length (heap st)) \<or> (k, r) \<in> set (triggered st)"
    using set_update_subset[of tid "length (heap st)" "triggered st"]
    by (auto simp: triggered_launchClip)
  then have "r < length (heap ?s) \<and> map trackId (heap ?s) ! r = k"
  proof
    assume "(k, r) = (tid, length (heap st))"
    then show ?thesis by (simp add: ids len nth_append)
  next
    assume "(k, r) \<in> set (triggered st)"
    with assms have "r < length (heap st)" and "trackId (heap st ! r) = k"
      by (auto simp: keysMatch_def list_all_iff)
    then show ?thesis by (simp add: ids len nth_append)
  qed
  then have "r < length (heap ?s)" and "map trackId (heap ?s) ! r = k"
    by simp_all
  then show "case x of (k, r) \<Rightarrow> r < length (heap ?s) \<and> trackId (heap ?s ! r) = k"
    by (simp add: x)
qed

lemma keysMatch_launchSceneFrom:
  "keysMatch st \<Longrightarrow> keysMatch (launchSceneFrom clock k clips q st)"
  by (induction clock k clips q st rule: launchSceneFrom.induct)
     (simp_all add: keysMatch_launchClip keysMatch_clock)

lemma keysMatch_launchScene: "keysMatch st \<Longrightarrow> keysMatch (launchScene clock clips q st)"
  by (simp add: launchScene_def keysMatch_launchSceneFrom)

lemma keysMatch_reachable: "reachable st \<Longrightarrow> keysMatch st"
proof (induction rule: reachable.induct)
  case (r_new now)
  show ?case by (rule keysMatch_new)
next
  case (r_launchClip st tid slot c q)
  then show ?case by (simp add: keysMatch_launchClip)
next
  case (r_stopClip st tid q)
  then show ?case by (simp add: keysMatch_stopClip)
next
  case (r_launchScene st clock clips q)
  then show ?case by (simp add: keysMatch_launchScene)
next
  case (r_tick st random)
  then show ?case by (simp add: keysMatch_tick)
next
  case (r_stop st)
  show ?case by (simp add: keysMatch_def stop_def Let_def)
next
  case (r_stopAll st q)
  show ?case by (simp add: keysMatch_def stopAll_def Let_def)
qed (simp_all add: keysMatch_def setBPM_def setGlobalQuantization_def setMIDIOutput_def
       loadSample_def start_def pause_def Let_def)

subsection \<open>Stopping a track cancels its pending trigger\<close>

lemma stopClip_quiet:
  assumes "keysMatch st"
  shows "map_of (triggered (stopClip t q st)) t = None
         \<and> startedOn t (runTicks ts (stopClip t q st)) = startedOn t st"
proof -
  have "quiet t (stopClip t q st) (runTicks ts (stopClip t q st))"
    by (rule quiet_runTicks[OF noPending_stopClip[OF assms]])
  moreover have "quiet t st (stopClip t q st)"
    by (simp add: quiet_stopClip)
  ultimately show ?thesis
    by (simp add: quiet_def triggered_stopClip delete_conv')
qed

text \<open>
  C4. \<open>stopClip\<close> on a track removes the track's entry from the \<open>triggered\<close> map at
  once, whatever the quantisation argument is, and no tick that follows emits a
  \<open>clip-started\<close> event for that track: in every state the launcher can reach, after
  \<open>stopClip\<close> and any number of ticks, at any clock times and with any random draws,
  the \<open>clip-started\<close> events of the track are those emitted before the call.
\<close>

theorem stopClip_cancels_pending_trigger:
  assumes "reachable st"
  shows "map_of (triggered (stopClip t q st)) t = None
         \<and> startedOn t (runTicks ts (stopClip t q st)) = startedOn t st"
  using stopClip_quiet[OF keysMatch_reachable[OF assms]] .

lemmas launcher_eval =
  tick_def launchClip_def stopClip_def launchScene_def launchSceneFrom.simps runTicks_def start_def
  newClipLauncher_def
  getPosition_def getNextQuantizedBeat_def startClip_def stopScheduledClip_def modify_def emit_def
  startMIDIClip_def scheduleNotes_def present_def processPlayingClip_def processMidiEvents_def
  orElse_def secondsToBeats_def Let_def ceiling_def plainClip_def legatoClip_def

theorem stopClip_cancels_pending_trigger_witness:
  "reachable pendingA \<and> map_of (triggered pendingA) ''t'' = Some 0
   \<and> startedOn ''t'' (runTicks [(5/2, \<lambda>k. 0)] pendingA) = [0]
   \<and> map_of (triggered (stopClip ''t'' Q1Bar pendingA)) ''t'' = None
   \<and> startedOn ''t'' (runTicks [(5/2, \<lambda>k. 0)] (stopClip ''t'' Q1Bar pendingA)) = []"
proof -
  have k: "reachable pendingA"
    unfolding pendingA_def by (intro reachable.intros)
  have s: "startedOn ''t'' pendingA = []"
    by (simp add: startedOn_def pendingA_def launcher_eval)
  have t: "map_of (triggered pendingA) ''t'' = Some 0"
    by (simp add: pendingA_def launcher_eval)
  have r: "startedOn ''t'' (runTicks [(5/2, \<lambda>k. 0)] pendingA) = [0]"
    by (simp add: startedOn_def pendingA_def launcher_eval)
  show ?thesis
    using stopClip_cancels_pending_trigger[OF k, of "''t''" Q1Bar "[(5/2, \<lambda>k. 0)]"] k s t r
    by simp
qed

subsection \<open>Launching a scene\<close>

lemma launchClip_length: "length (heap (launchClip tid slot c q s)) = Suc (length (heap s))"
  using arg_cong[OF trackIds_launchClip[of tid slot c q s], of length] by simp

lemma launchClip_old:
  assumes "r < length (heap s)"
  shows "launchTime (heap (launchClip tid slot c q s) ! r) = launchTime (heap s ! r)"
    and "trackId (heap (launchClip tid slot c q s) ! r) = trackId (heap s ! r)"
    and "clip (heap (launchClip tid slot c q s) ! r) = clip (heap s ! r)"
proof -
  let ?s1 = "launchClip tid slot c q s"
  have r1: "r < length (heap ?s1)"
    using assms by (simp add: launchClip_length)
  have "map launchTime (heap ?s1) ! r = map launchTime (heap s) ! r"
    using assms by (simp add: launchClip_launchTimes nth_append)
  then show "launchTime (heap ?s1 ! r) = launchTime (heap s ! r)"
    using assms r1 by simp
  have "map trackId (heap ?s1) ! r = map trackId (heap s) ! r"
    using assms by (simp add: trackIds_launchClip nth_append)
  then show "trackId (heap ?s1 ! r) = trackId (heap s ! r)"
    using assms r1 by simp
  have "map clip (heap ?s1) ! r = map clip (heap s) ! r"
    using assms by (simp add: launchClip_clips nth_append)
  then show "clip (heap ?s1 ! r) = clip (heap s ! r)"
    using assms r1 by simp
qed

lemma launchClip_new:
  "launchTime (heap (launchClip tid slot c q s) ! length (heap s)) =
     (if map_of (playing s) tid \<noteq> None \<and> legato c = Some Legato then getPosition s
      else getNextQuantizedBeat (getPosition s) (if q = QGlobal then globalQuantization s else q) (bpm s))"
  "trackId (heap (launchClip tid slot c q s) ! length (heap s)) = tid"
  "clip (heap (launchClip tid slot c q s) ! length (heap s)) = c"
proof -
  let ?s1 = "launchClip tid slot c q s"
  have r1: "length (heap s) < length (heap ?s1)"
    by (simp add: launchClip_length)
  have "map launchTime (heap ?s1) ! length (heap s) =
     (if map_of (playing s) tid \<noteq> None \<and> legato c = Some Legato then getPosition s
      else getNextQuantizedBeat (getPosition s) (if q = QGlobal then globalQuantization s else q) (bpm s))"
    by (simp add: launchClip_launchTimes nth_append)
  then show "launchTime (heap ?s1 ! length (heap s)) =
     (if map_of (playing s) tid \<noteq> None \<and> legato c = Some Legato then getPosition s
      else getNextQuantizedBeat (getPosition s) (if q = QGlobal then globalQuantization s else q) (bpm s))"
    using r1 by simp
  have "map trackId (heap ?s1) ! length (heap s) = tid"
    by (simp add: trackIds_launchClip nth_append)
  then show "trackId (heap ?s1 ! length (heap s)) = tid"
    using r1 by simp
  have "map clip (heap ?s1) ! length (heap s) = c"
    by (simp add: launchClip_clips nth_append)
  then show "clip (heap ?s1 ! length (heap s)) = c"
    using r1 by simp
qed

lemma getPosition_clock:
  "getPosition ((launchClip tid slot c q s)\<lparr>currentTime := t\<rparr>) = getPosition (s\<lparr>currentTime := t\<rparr>)"
  by (simp add: getPosition_def launchClip_transport launchClip_bpm)

lemma launchSceneFrom_old:
  assumes "r < length (heap st)"
  shows "r < length (heap (launchSceneFrom clock k clips q st))
         \<and> launchTime (heap (launchSceneFrom clock k clips q st) ! r) = launchTime (heap st ! r)
         \<and> trackId (heap (launchSceneFrom clock k clips q st) ! r) = trackId (heap st ! r)
         \<and> clip (heap (launchSceneFrom clock k clips q st) ! r) = clip (heap st ! r)"
  using assms
proof (induction clock k clips q st rule: launchSceneFrom.induct)
  case (1 clock k quantization st)
  then show ?case by simp
next
  case (2 clock k tid slot c clips quantization st)
  let ?s0 = "st\<lparr>currentTime := clock k\<rparr>"
  let ?s1 = "launchClip tid slot c quantization ?s0"
  from "2.prems" have r0: "r < length (heap ?s0)" by simp
  then have "r < length (heap ?s1)"
    by (simp add: launchClip_length)
  from "2.IH"[OF this] launchClip_old[OF r0, of tid slot c quantization]
  show ?case by simp
qed

lemma launchSceneFrom_fields:
  "bpm (launchSceneFrom clock k clips q st) = bpm st"
  "globalQuantization (launchSceneFrom clock k clips q st) = globalQuantization st"
  "getPosition ((launchSceneFrom clock k clips q st)\<lparr>currentTime := t\<rparr>) = getPosition (st\<lparr>currentTime := t\<rparr>)"
  by (induction clock k clips q st rule: launchSceneFrom.induct)
     (simp_all add: launchClip_bpm launchClip_gq getPosition_clock)

lemma launchSceneFrom_take:
  "i < length clips \<Longrightarrow> clips ! i = (tid, slot, c) \<Longrightarrow>
   launchSceneFrom clock k (take (Suc i) clips) q st =
     launchClip tid slot c q ((launchSceneFrom clock k (take i clips) q st)\<lparr>currentTime := clock (k + i)\<rparr>)"
proof (induction clock k clips q st arbitrary: i rule: launchSceneFrom.induct)
  case (1 clock k quantization st)
  then show ?case by simp
next
  case (2 clock k t1 s1 c1 clips quantization st)
  show ?case
  proof (cases i)
    case 0
    with "2.prems" show ?thesis by simp
  next
    case (Suc j)
    with "2.prems" have "j < length clips" and "clips ! j = (tid, slot, c)" by simp_all
    from "2.IH"[OF this] show ?thesis by (simp add: Suc)
  qed
qed

lemma launchSceneFrom_append:
  "launchSceneFrom clock k (xs @ ys) q st =
     launchSceneFrom clock (k + length xs) ys q (launchSceneFrom clock k xs q st)"
  by (induction clock k xs q st rule: launchSceneFrom.induct) simp_all

lemma launchSceneFrom_length:
  "length (heap (launchSceneFrom clock k clips q st)) = length (heap st) + length clips"
  by (induction clock k clips q st rule: launchSceneFrom.induct) (simp_all add: launchClip_length)

lemma launchSceneFrom_nth:
  assumes "i < length clips" and "clips ! i = (tid, slot, c)"
  shows "length (heap st) + i < length (heap (launchSceneFrom clock k clips q st))
         \<and> trackId (heap (launchSceneFrom clock k clips q st) ! (length (heap st) + i)) = tid
         \<and> clip (heap (launchSceneFrom clock k clips q st) ! (length (heap st) + i)) = c
         \<and> launchTime (heap (launchSceneFrom clock k clips q st) ! (length (heap st) + i)) =
             (if map_of (playing (launchSceneFrom clock k (take i clips) q st)) tid \<noteq> None
                 \<and> legato c = Some Legato
              then getPosition (st\<lparr>currentTime := clock (k + i)\<rparr>)
              else getNextQuantizedBeat (getPosition (st\<lparr>currentTime := clock (k + i)\<rparr>))
                     (if q = QGlobal then globalQuantization st else q) (bpm st))"
proof -
  let ?before = "launchSceneFrom clock k (take i clips) q st"
  let ?s0 = "?before\<lparr>currentTime := clock (k + i)\<rparr>"
  let ?s1 = "launchClip tid slot c q ?s0"
  have split: "clips = take (Suc i) clips @ drop (Suc i) clips"
    by simp
  have len: "length (take (Suc i) clips) = Suc i"
    using assms(1) by simp
  have "launchSceneFrom clock k clips q st =
          launchSceneFrom clock (k + Suc i) (drop (Suc i) clips) q
            (launchSceneFrom clock k (take (Suc i) clips) q st)"
    using launchSceneFrom_append[of clock k "take (Suc i) clips" "drop (Suc i) clips" q st] len
    by simp
  then have whole: "launchSceneFrom clock k clips q st =
          launchSceneFrom clock (k + Suc i) (drop (Suc i) clips) q ?s1"
    by (simp add: launchSceneFrom_take[OF assms])
  have lb: "length (heap ?s0) = length (heap st) + i"
    using assms(1) by (simp add: launchSceneFrom_length)
  then have r1: "length (heap st) + i < length (heap ?s1)"
    by (simp add: launchClip_length)
  note old = launchSceneFrom_old[OF r1, of clock "k + Suc i" "drop (Suc i) clips" q]
  note new = launchClip_new[of tid slot c q ?s0]
  have pos: "getPosition ?s0 = getPosition (st\<lparr>currentTime := clock (k + i)\<rparr>)"
    by (simp add: launchSceneFrom_fields)
  show ?thesis
    using old new lb pos by (simp add: whole launchSceneFrom_fields del: launchSceneFrom.simps)
qed

text \<open>
  C3, amended. \<open>launchScene\<close> captures no position: it calls \<open>launchClip\<close> for each
  supplied entry in turn, each call reads the transport position at its own moment and
  creates one scheduled clip. The launch beat of the clip created for entry \<open>i\<close> is the
  next boundary of the resolved quantisation (with \<open>1-bar\<close>, the next bar) at or after
  the position read by its own call, so two entries get the same launch beat when their
  calls read positions with the same next boundary, as they do when the clock does not
  advance between them; and the launch beat is the position read itself, not a boundary,
  when the clip's legato mode is \<open>legato\<close> and its track has a playing clip at that
  moment. \<open>clock i\<close> is what \<open>context.currentTime\<close> returns to the call for entry \<open>i\<close>.
\<close>

theorem launchScene_launch_beats:
  assumes "i < length clips" and "clips ! i = (tid, slot, c)"
  shows "length (heap st) + i < length (heap (launchScene clock clips q st))
         \<and> trackId (heap (launchScene clock clips q st) ! (length (heap st) + i)) = tid
         \<and> clip (heap (launchScene clock clips q st) ! (length (heap st) + i)) = c
         \<and> launchTime (heap (launchScene clock clips q st) ! (length (heap st) + i)) =
             (if map_of (playing (launchScene clock (take i clips) q st)) tid \<noteq> None
                 \<and> legato c = Some Legato
              then getPosition (st\<lparr>currentTime := clock i\<rparr>)
              else getNextQuantizedBeat (getPosition (st\<lparr>currentTime := clock i\<rparr>))
                     (if q = QGlobal then globalQuantization st else q) (bpm st))"
  using launchSceneFrom_nth[OF assms, of st clock 0 q] by (simp add: launchScene_def)

theorem launchScene_launch_beats_witness:
  "(1::nat) < length [(''t'', 0::nat, plainClip), (''u'', 0, plainClip)]
   \<and> [(''t'', 0::nat, plainClip), (''u'', 0, plainClip)] ! 1 = (''u'', 0, plainClip)
   \<and> getPosition ((start 0 (newClipLauncher 0))\<lparr>currentTime := 201/100\<rparr>) = 201/50
   \<and> length (heap sceneClock) = 2
   \<and> trackId (heap sceneClock ! 1) = ''u''
   \<and> clip (heap sceneClock ! 1) = plainClip
   \<and> launchTime (heap sceneClock ! 1) = 8"
proof -
  let ?st = "start 0 (newClipLauncher 0)"
  have h: "length (heap ?st) = 0"
    by (simp add: launcher_eval)
  have p: "getPosition (?st\<lparr>currentTime := 201/100\<rparr>) = 201/50"
    by (simp add: launcher_eval)
  have b: "getNextQuantizedBeat (201/50) Q1Bar (bpm ?st) = 8"
    by (simp add: launcher_eval)
  have n: "length (heap sceneClock) = 2"
    by (simp add: sceneClock_def launchScene_def launchClip_length h)
  show ?thesis
    using launchScene_launch_beats[of 1 "[(''t'', 0, plainClip), (''u'', 0, plainClip)]" "''u''" 0 plainClip
            ?st "\<lambda>k. if k = 0 then 199/100 else 201/100" Q1Bar] h p b n
    by (simp add: sceneClock_def plainClip_def)
qed

text \<open>
  C3 as stated fails, in two ways. In \<open>sceneClock\<close> the two launches of one scene read
  the positions 3.98 and 4.02, on either side of a bar line, and the two clips get the
  launch beats 4 and 8. In \<open>sceneLegato\<close> both launches read the position 1; the legato
  clip on track \<open>t\<close> (where the clip with launch beat 0 is playing) gets the launch beat
  1 and the clip on track \<open>u\<close> gets the launch beat 4.
\<close>

theorem scene_launch_beats_differ:
  "map launchTime (heap sceneClock) = [4, 8]
   \<and> map launchTime (heap sceneLegato) = [0, 1, 4]"
  by (simp add: sceneClock_def sceneLegato_def playingA_def launcher_eval)

subsection \<open>Legato launch on a playing track\<close>

text \<open>
  C2. A legato clip B launched on a track where A is playing should start at the current
  beat and A should be stopping with that same beat as its stop beat. In the session of
  \<open>legatoLaunched\<close> the current beat is 1 and B's launch beat is 1, but A's stop beat is
  4, the next bar, and A's state is still \<open>playing\<close>: \<open>launchClip\<close> writes the launch
  beat computed before the legato override into \<open>stopTime\<close> and, unlike \<open>stopClip\<close>,
  leaves the state of the clip it puts into the \<open>stopping\<close> map unchanged.
\<close>

theorem legato_launch_stop_beat:
  "getPosition (playingA\<lparr>currentTime := 1/2\<rparr>) = 1
   \<and> map_of (playing (playingA\<lparr>currentTime := 1/2\<rparr>)) ''t'' = Some 0
   \<and> map_of (triggered legatoLaunched) ''t'' = Some 1
   \<and> launchTime (heap legatoLaunched ! 1) = 1
   \<and> map_of (stopping legatoLaunched) ''t'' = Some 0
   \<and> stopTime (heap legatoLaunched ! 0) = Some 4
   \<and> state (heap legatoLaunched ! 0) = Playing"
  by (simp add: legatoLaunched_def playingA_def launcher_eval)

text \<open>
  C1. At most one scheduled clip of a track should be in state \<open>playing\<close> at a tick.
  After the tick at beat 1.2 of the same session the launcher holds two scheduled clips
  for track \<open>t\<close> whose state is \<open>playing\<close>: B in the \<open>playing\<close> map and A in the
  \<open>stopping\<close> map, where A stays until beat 4.
\<close>

theorem legato_launch_two_playing:
  "map_of (playing legatoTicked) ''t'' = Some 1 \<and> state (heap legatoTicked ! 1) = Playing
   \<and> map_of (stopping legatoTicked) ''t'' = Some 0 \<and> state (heap legatoTicked ! 0) = Playing
   \<and> playingOn legatoTicked ''t'' = [1, 0]"
  by (simp add: legatoTicked_def legatoLaunched_def playingA_def playingOn_def trackedRefs_def
        List.map_filter_simps launcher_eval)

section \<open>Results: warp engine\<close>

text \<open>
  C10. With a source buffer loaded and the \<open>enabled\<close> flag of the settings false,
  \<open>process\<close> returns the source buffer itself, for every target duration, every warp
  mode and every other setting.
\<close>

theorem process_disabled_returns_source:
  assumes "sourceBuffer e = Some src" and "\<not> enabled (settings e)"
  shows "process e random targetDuration = Some (Inr (Some src))"
  using assms by (simp add: process_def)

theorem process_disabled_returns_source_witness:
  "sourceBuffer \<lparr>sourceBuffer = Some grainSource, settings = (textureSettings [] 50)\<lparr>enabled := False\<rparr>\<rparr>
     = Some grainSource
   \<and> \<not> enabled (settings \<lparr>sourceBuffer = Some grainSource,
                           settings = (textureSettings [] 50)\<lparr>enabled := False\<rparr>\<rparr>)
   \<and> process \<lparr>sourceBuffer = Some grainSource, settings = (textureSettings [] 50)\<lparr>enabled := False\<rparr>\<rparr>
        (\<lambda>k. 0) 1 = Some (Inr (Some grainSource))"
  using process_disabled_returns_source
          [of "\<lparr>sourceBuffer = Some grainSource, settings = (textureSettings [] 50)\<lparr>enabled := False\<rparr>\<rparr>"
              grainSource "\<lambda>k. 0" 1]
  by (simp add: textureSettings_def)

text \<open>
  C9. \<open>process\<close> in mode \<open>complex\<close> gives the same outcome as \<open>process\<close> in mode
  \<open>tones\<close> on the same engine, for every source buffer, target duration and setting.
\<close>

theorem process_complex_is_tones:
  "process (setWarpMode ComplexMode e) random targetDuration
     = process (setWarpMode TonesMode e) random targetDuration"
  by (simp add: process_def setWarpMode_def processComplexMode_def processTonesMode_def
        split: option.splits)

subsection \<open>Texture mode\<close>

lemma length_addAt [simp]: "length (addAt xs k v) = length xs"
  by (simp add: addAt_def)

lemma length_overlapAdd [simp]: "length (overlapAdd g n p i out) = length out"
  by (induction g n p i out rule: overlapAdd.induct) (subst overlapAdd.simps, simp)

text \<open>With an output hop of zero the loop of \<open>textureGranularStretch\<close> that has entered
  never leaves: whether the grain is skipped or written, \<open>outputPos\<close> stays where it is.\<close>

lemma textureLoop_stuck:
  "textureLoop random input window gs hopOut k outputPos out = Some res
   \<Longrightarrow> \<not> (hopOut = 0 \<and> outputPos < int (length out) - gs)"
proof (erule textureLoop.raw_induct[rotated 1, where P = "\<lambda>random input window gs hopOut k outputPos out res.
         \<not> (hopOut = 0 \<and> outputPos < int (length out) - gs)"], goal_cases)
  case (1 f rnd inp win g h j p out res)
  show ?case
  proof
    assume a: "h = 0 \<and> p < int (length out) - g"
    have step: "f rnd inp win g h j' (p + h) out' \<noteq> Some res" if "length out' = length out" for j' out'
    proof
      assume "f rnd inp win g h j' (p + h) out' = Some res"
      from 1(1)[OF this] a that show False by simp
    qed
    define ts where "ts = textureStart ((rnd j - 5 / 10) * real_of_int g * 2) p (length out) (int (length inp)) g"
    define o1 where "o1 = overlapAdd (\<lambda>i. NaN) g p 0 out"
    define o2 where "o2 = (\<lambda>inStart. overlapAdd (\<lambda>i. smul (smul (jsGet inp (inStart + i)) (windowAt win g i))
                                         (Num (8 / 10 + rnd (j + 1) * (4 / 10)))) g p 0 out)"
    have l1: "length o1 = length out" and l2: "length (o2 x) = length out" for x
      by (simp_all add: o1_def o2_def)
    from 1(2) a have eq:
      "(case ts of
           None \<Rightarrow> f rnd inp win g h (j + 2) (p + h) o1
         | Some inStart \<Rightarrow>
             if inStart < 0 \<or> int (length inp) - g \<le> inStart
             then f rnd inp win g h (j + 1) (p + h) out
             else f rnd inp win g h (j + 2) (p + h) (o2 inStart)) = Some res"
      unfolding ts_def o1_def o2_def by (simp only: if_True)
    show False
    proof (cases ts)
      case None
      with eq step[OF l1, of "j + 2"] show False by simp
    next
      case (Some inStart)
      show False
      proof (cases "inStart < 0 \<or> int (length inp) - g \<le> inStart")
        case True
        with eq Some step[of out "j + 1"] show False by simp
      next
        case False
        with eq Some step[OF l2, of "j + 2" inStart] show False by simp
      qed
    qed
  qed
qed

text \<open>
  C5. With a source buffer loaded \<open>process\<close> should return a buffer for every target
  duration and warp mode. In texture mode, a 60 s source at 44.1 kHz and a target of
  0.1 s (default settings, any markers, any random draws) give an output of 4410 frames,
  a grain of 2205 frames and an output hop of \<open>\<lfloor>551 \<cdot> (0.1 / 60)\<rfloor> = 0\<close>: the loop of
  \<open>textureGranularStretch\<close> never advances and \<open>process\<close> does not return.
\<close>

theorem process_texture_never_returns:
  "\<forall>ms random. process \<lparr>sourceBuffer = Some longSource, settings = textureSettings ms 50\<rparr> random (1/10) = None"
proof (intro allI)
  fix ms :: "WarpMarker list" and random :: "nat \<Rightarrow> real"
  have "textureLoop random (replicate 2646000 (Num 0)) (getGrainWindow 2205) 2205 0 0 0
          (replicate 4410 (Num 0)) = None"
    using textureLoop_stuck[of random "replicate 2646000 (Num 0)" "getGrainWindow 2205" 2205 0 0 0
            "replicate 4410 (Num 0)"]
    by (cases "textureLoop random (replicate 2646000 (Num 0)) (getGrainWindow 2205) 2205 0 0 0
                 (replicate 4410 (Num 0))") auto
  then show "process \<lparr>sourceBuffer = Some longSource, settings = textureSettings ms 50\<rparr> random (1/10) = None"
    by (simp add: process_def textureSettings_def longSource_def processTextureMode_def
          createBuffer_def duration_def textureGranularStretch_def grainSamples_def Let_def)
qed

text \<open>The stretch of the four-frame channel of \<open>grainSource\<close> into eight frames with a
  grain of four frames (0.1 ms), step by step.\<close>

lemma replicate_8: "replicate 8 x = [x, x, x, x, x, x, x, x]"
  by (simp add: numeral_eq_Suc)

lemma grainSamples_short: "grainSamples (textureSettings ms (1/10)) = 4"
  by (simp add: grainSamples_def textureSettings_def)

lemma textureLoop_grainSource:
  "textureLoop random [Num (1/2), Num (1/2), Num (1/2), Num (1/2)] w 4 2 0 0 (replicate 8 (Num 0))
     = Some (4, [NaN, NaN, NaN, NaN, NaN, NaN, Num 0, Num 0])"
  by (simp add: replicate_8 textureLoop.simps textureStart_def jsRem_def overlapAdd.simps addAt_def)

lemma textureGranularStretch_grainSource:
  "textureGranularStretch (textureSettings ms (1/10)) random 0
     [Num (1/2), Num (1/2), Num (1/2), Num (1/2)] (replicate 8 (Num 0)) 2
     = Some (4, [NaN, NaN, NaN, NaN, NaN, NaN, Num 0, Num 0])"
  by (simp add: textureGranularStretch_def grainSamples_short textureLoop_grainSource
        normalizePeak_def peak_def)

text \<open>
  C6. After the granular or the texture stretch the largest absolute sample of the
  output should be at most 1. In texture mode, when the input has exactly as many frames
  as the grain, the grain start is \<open>\<dots> % (inputLength - grainSize)\<close>, a remainder by
  zero, which is \<open>NaN\<close>; \<open>NaN\<close> passes the range test, \<open>input[NaN]\<close> is undefined and
  the grain written is \<open>NaN\<close>. The peak is then \<open>NaN\<close>, the test \<open>maxVal > 1\<close> is
  false, and the output keeps its \<open>NaN\<close> samples: here \<open>process\<close> on the four-frame
  source \<open>grainSource\<close> (all samples 0.5) with a grain of four frames and a target of
  eight frames, for any random draws.
\<close>

theorem texture_stretch_writes_NaN:
  "\<forall>random. process \<lparr>sourceBuffer = Some grainSource, settings = textureSettings [] (1/10)\<rparr>
              random (8/44100)
     = Some (Inr (Some \<lparr>sampleRate = 44100, frames = 8,
                        channelData = [[NaN, NaN, NaN, NaN, NaN, NaN, Num 0, Num 0]]\<rparr>))"
proof
  fix random :: "nat \<Rightarrow> real"
  have m: "mode (textureSettings [] (1/10)) = TextureMode" "enabled (textureSettings [] (1/10))"
    by (simp_all add: textureSettings_def)
  show "process \<lparr>sourceBuffer = Some grainSource, settings = textureSettings [] (1/10)\<rparr>
          random (8/44100)
     = Some (Inr (Some \<lparr>sampleRate = 44100, frames = 8,
                        channelData = [[NaN, NaN, NaN, NaN, NaN, NaN, Num 0, Num 0]]\<rparr>))"
    by (simp add: process_def processTextureMode_def createBuffer_def duration_def grainSource_def
          m textureGranularStretch_grainSource)
qed

subsection \<open>What process returns\<close>

text \<open>
  Whenever \<open>process\<close> returns, it returns \<open>null\<close> exactly when no source buffer is
  loaded.
\<close>

theorem process_null_iff:
  "process e random targetDuration = Some (Inr None) \<longleftrightarrow> sourceBuffer e = None"
  by (auto simp: process_def Let_def map_sum_def split: option.splits WarpMode.splits sum.splits)

text \<open>
  In the modes \<open>tones\<close>, \<open>complex\<close>, \<open>repitch\<close> and \<open>off\<close>, with a source buffer
  loaded and a target of at least one frame, \<open>process\<close> returns a buffer: the loop of
  \<open>phaseVocoderStretch\<close> advances its input position by 512 frames in every iteration.
\<close>

theorem process_returns_in_tones:
  assumes "sourceBuffer e = Some src" and "mode (settings e) \<in> {TonesMode, ComplexMode, RepitchMode, OffMode}"
    and "1 \<le> \<lfloor>targetDuration * sampleRate src\<rfloor>"
  shows "\<exists>b. process e random targetDuration = Some (Inr (Some b))"
  using assms
  by (auto simp: process_def Let_def processComplexMode_def processTonesMode_def processRepitchMode_def
        createBuffer_def)

theorem process_returns_in_tones_witness:
  "sourceBuffer \<lparr>sourceBuffer = Some grainSource, settings = (textureSettings [] 50)\<lparr>mode := TonesMode\<rparr>\<rparr>
     = Some grainSource
   \<and> mode (settings \<lparr>sourceBuffer = Some grainSource, settings = (textureSettings [] 50)\<lparr>mode := TonesMode\<rparr>\<rparr>)
       = TonesMode
   \<and> (1::int) \<le> \<lfloor>(8/44100) * sampleRate grainSource\<rfloor>
   \<and> (\<exists>b. process \<lparr>sourceBuffer = Some grainSource, settings = (textureSettings [] 50)\<lparr>mode := TonesMode\<rparr>\<rparr>
              (\<lambda>k. 0) (8/44100) = Some (Inr (Some b)))"
  using process_returns_in_tones[of "\<lparr>sourceBuffer = Some grainSource, settings = (textureSettings [] 50)\<lparr>mode := TonesMode\<rparr>\<rparr>"
          grainSource "8/44100" "\<lambda>k. 0"]
  by (simp add: textureSettings_def grainSource_def)

subsection \<open>The normalisation of the granular stretchers\<close>

lemma peak_fold:
  "NaN \<notin> set xs \<Longrightarrow>
   \<exists>m. fold (\<lambda>x maxVal. smax maxVal (sabs x)) xs (Num m0) = Num m \<and> m0 \<le> m
       \<and> (\<forall>a. Num a \<in> set xs \<longrightarrow> \<bar>a\<bar> \<le> m)"
proof (induction xs arbitrary: m0)
  case Nil
  then show ?case by simp
next
  case (Cons x xs)
  then obtain a where x: "x = Num a" by (cases x) auto
  from Cons.prems have "NaN \<notin> set xs" by simp
  from Cons.IH[OF this, of "max m0 \<bar>a\<bar>"] obtain m where
    m: "fold (\<lambda>x maxVal. smax maxVal (sabs x)) xs (Num (max m0 \<bar>a\<bar>)) = Num m"
       "max m0 \<bar>a\<bar> \<le> m" "\<forall>a. Num a \<in> set xs \<longrightarrow> \<bar>a\<bar> \<le> m"
    by blast
  then show ?case by (auto simp: x)
qed

lemma normalizePeak_bounded:
  assumes "NaN \<notin> set out"
  shows "\<forall>s \<in> set (normalizePeak out). \<exists>a. s = Num a \<and> \<bar>a\<bar> \<le> 1"
proof -
  from peak_fold[OF assms, of 0] obtain m where
    m: "peak out = Num m" "0 \<le> m" "\<forall>a. Num a \<in> set out \<longrightarrow> \<bar>a\<bar> \<le> m"
    by (auto simp: peak_def)
  show ?thesis
  proof
    fix s assume s: "s \<in> set (normalizePeak out)"
    show "\<exists>a. s = Num a \<and> \<bar>a\<bar> \<le> 1"
    proof (cases "m > 1")
      case True
      with s m(1) obtain x where x: "x \<in> set out" "s = sdiv x (Num m)"
        by (auto simp: normalizePeak_def)
      with assms obtain a where a: "x = Num a" by (cases x) auto
      with x m(3) have "\<bar>a\<bar> \<le> m" by blast
      with True have "\<bar>a / m\<bar> \<le> 1" by (simp add: field_simps)
      with x a True show ?thesis by simp
    next
      case False
      with s m(1) have sin: "s \<in> set out" by (simp add: normalizePeak_def)
      with assms obtain a where a: "s = Num a" by (cases s) auto
      with sin m(3) False show ?thesis by fastforce
    qed
  qed
qed


lemma sorted_window_sizes: "sort (map fst initializeGrainWindows) = [256, 512, 1024, 2048, 4096]"
proof -
  have "map fst initializeGrainWindows = [256, 512, 1024, 2048, 4096]"
    by (simp add: initializeGrainWindows_def grainWindowSizes_def)
  moreover have "sorted [256, 512, 1024, 2048, 4096 :: nat]"
    by simp
  ultimately show ?thesis
    by (simp only: sorted_sort_id)
qed

lemma fold_pick: "fold (\<lambda>s c. if P s c then s else c) xs c0 \<in> insert c0 (set xs)"
  by (induction xs arbitrary: c0) auto

lemma closestSize_pos: "0 < closestSize n"
proof -
  have "closestSize n \<in> insert 256 (set [256, 512, 1024, 2048, 4096])"
    unfolding closestSize_def sorted_window_sizes list.sel by (rule fold_pick)
  then show ?thesis by auto
qed

lemma hannWindow_finite: "NaN \<notin> set (hannWindow n)" and length_hannWindow: "length (hannWindow n) = n"
  by (auto simp: hannWindow_def)

lemma jsGet_finite:
  assumes "NaN \<notin> set xs" and "0 \<le> i" and "i < int (length xs)"
  shows "jsGet xs i \<noteq> NaN"
proof -
  from assms(2,3) have "nat i < length xs" by (simp add: nat_less_iff)
  then have "xs ! nat i \<in> set xs" by (rule nth_mem)
  with assms(1) have "xs ! nat i \<noteq> NaN" by metis
  with assms(2,3) show ?thesis by (simp add: jsGet_def)
qed

lemma smul_finite: "a \<noteq> NaN \<Longrightarrow> b \<noteq> NaN \<Longrightarrow> smul a b \<noteq> NaN"
  by (cases a; cases b) simp_all

lemma windowAt_finite:
  assumes "0 \<le> i" and "i < gs"
  shows "windowAt (getGrainWindow gs) gs i \<noteq> NaN"
proof -
  define n where "n = closestSize gs"
  define q where "q = real_of_int i / real_of_int gs"
  have n: "0 < real n" using closestSize_pos[of gs] by (simp add: n_def)
  have q0: "0 \<le> q" using assms by (simp add: q_def)
  have q1: "q < 1" using assms by (simp add: q_def)
  have "0 \<le> q * real n" using q0 n by (intro mult_nonneg_nonneg) simp_all
  then have lo: "0 \<le> \<lfloor>q * real n\<rfloor>" by simp
  have "q * real n < 1 * real n" using q1 n by (intro mult_strict_right_mono) simp_all
  then have "\<lfloor>q * real n\<rfloor> < int n" by (simp add: floor_less_iff)
  with lo have "jsGet (hannWindow n) \<lfloor>q * real n\<rfloor> \<noteq> NaN"
    by (intro jsGet_finite) (simp_all add: hannWindow_finite length_hannWindow)
  then show ?thesis
    by (simp add: windowAt_def getGrainWindow_def n_def q_def)
qed

lemma addAt_finite:
  assumes "NaN \<notin> set xs" and "v \<noteq> NaN"
  shows "NaN \<notin> set (addAt xs k v)"
proof (cases "0 \<le> k \<and> k < int (length xs)")
  case True
  then have "nat k < length xs" by (simp add: nat_less_iff)
  then have "xs ! nat k \<in> set xs" by (rule nth_mem)
  with assms have "sadd (xs ! nat k) v \<noteq> NaN" by (cases "xs ! nat k"; cases v) auto
  with assms True show ?thesis
    using set_update_subset_insert[of xs "nat k" "sadd (xs ! nat k) v"] by (auto simp: addAt_def)
next
  case False
  with assms show ?thesis by (auto simp: addAt_def)
qed

lemma overlapAdd_finite:
  "(\<And>j. i \<le> j \<Longrightarrow> j < n \<Longrightarrow> g j \<noteq> NaN) \<Longrightarrow> NaN \<notin> set out \<Longrightarrow> NaN \<notin> set (overlapAdd g n p i out)"
proof (induction g n p i out rule: overlapAdd.induct)
  case (1 g n p i out)
  show ?case
  proof (cases "i < n \<and> p + i < int (length out)")
    case True
    have "NaN \<notin> set (addAt out (p + i) (g i))"
      using 1(2)[of i] 1(3) True by (simp add: addAt_finite)
    with 1(1)[OF True] 1(2) have "NaN \<notin> set (overlapAdd g n p (i + 1) (addAt out (p + i) (g i)))"
      by simp
    with True show ?thesis by (subst overlapAdd.simps) simp
  next
    case False
    then have "overlapAdd g n p i out = out" by (subst overlapAdd.simps) auto
    with 1(3) show ?thesis by simp
  qed
qed


lemma granularLoop_finite:
  "granularLoop input window gs hopIn hopOut inputPos outputPos out = Some res
   \<Longrightarrow> NaN \<notin> set input \<and> NaN \<notin> set out \<and> window = getGrainWindow gs
        \<and> (0 < gs \<longrightarrow> 0 \<le> hopIn \<and> 0 \<le> inputPos)
       \<longrightarrow> NaN \<notin> set res"
proof (erule granularLoop.raw_induct[rotated 1, where P = "\<lambda>input window gs hopIn hopOut inputPos outputPos out res.
         NaN \<notin> set input \<and> NaN \<notin> set out \<and> window = getGrainWindow gs
          \<and> (0 < gs \<longrightarrow> 0 \<le> hopIn \<and> 0 \<le> inputPos)
         \<longrightarrow> NaN \<notin> set res"], goal_cases)
  case (1 f inp win g hI hO ip p out res)
  show ?case
  proof (intro impI)
    assume a: "NaN \<notin> set inp \<and> NaN \<notin> set out \<and> win = getGrainWindow g
               \<and> (0 < g \<longrightarrow> 0 \<le> hI \<and> 0 \<le> ip)"
    show "NaN \<notin> set res"
    proof (cases "p < int (length out) - g \<and> \<not> ip \<ge> int (length inp) - g")
      case False
      with 1(2) have "res = out" by (auto split: if_splits)
      with a show ?thesis by simp
    next
      case True
      define out' where "out' = overlapAdd
                   (\<lambda>i. smul (jsGet inp (min (ip + i) (int (length inp) - 1))) (windowAt win g i))
                   g p 0 out"
      from 1(2) True have rec: "f inp win g hI hO (ip + hI) (p + hO) out' = Some res"
        by (simp add: out'_def)
      have "NaN \<notin> set out'"
        unfolding out'_def
      proof (rule overlapAdd_finite)
        show "NaN \<notin> set out" using a by simp
      next
        fix j :: int assume j: "0 \<le> j" "j < g"
        then have g: "0 < g" by simp
        with a have ip: "0 \<le> ip" by simp
        from True have "ip < int (length inp) - g" by simp
        with g ip have len: "1 \<le> int (length inp)" by simp
        have "jsGet inp (min (ip + j) (int (length inp) - 1)) \<noteq> NaN"
          using a ip j len by (intro jsGet_finite) auto
        moreover have "windowAt win g j \<noteq> NaN"
          using a j by (simp add: windowAt_finite)
        ultimately show "smul (jsGet inp (min (ip + j) (int (length inp) - 1))) (windowAt win g j) \<noteq> NaN"
          by (rule smul_finite)
      qed
      with 1(1)[OF rec] a show ?thesis by simp
    qed
  qed
qed


lemma granularLoop_length:
  "granularLoop input window gs hopIn hopOut inputPos outputPos out = Some res
   \<Longrightarrow> length res = length out"
proof (erule granularLoop.raw_induct[rotated 1, where P = "\<lambda>input window gs hopIn hopOut inputPos outputPos out res.
         length res = length out"], goal_cases)
  case (1 f inp win g hI hO ip p out res)
  show ?case
  proof (cases "p < int (length out) - g \<and> \<not> ip \<ge> int (length inp) - g")
    case False
    with 1(2) show ?thesis by (auto split: if_splits)
  next
    case True
    with 1(2) have "f inp win g hI hO (ip + hI) (p + hO)
        (overlapAdd (\<lambda>i. smul (jsGet inp (min (ip + i) (int (length inp) - 1))) (windowAt win g i))
           g p 0 out) = Some res"
      by simp
    from 1(1)[OF this] show ?thesis by simp
  qed
qed

text \<open>
  For an input without \<open>NaN\<close> samples, an output that \<open>granularStretch\<close> returns has
  the length of the output array, and each of its samples is a number of absolute value
  at most 1, for every ratio and every setting.
\<close>

theorem granularStretch_normalised:
  assumes "NaN \<notin> set input" and "granularStretch s input output ratio = Some res"
  shows "length res = length output \<and> (\<forall>x \<in> set res. \<exists>a. x = Num a \<and> \<bar>a\<bar> \<le> 1)"
proof -
  define gs where "gs = grainSamples s"
  define hopIn where "hopIn = \<lfloor>real_of_int gs * 0.25\<rfloor>"
  from assms(2) obtain raw where
    raw: "granularLoop input (getGrainWindow gs) gs hopIn \<lfloor>real_of_int hopIn * ratio\<rfloor> 0 0
            (replicate (length output) (Num 0)) = Some raw"
    and res: "res = normalizePeak raw"
    by (auto simp: granularStretch_def Let_def gs_def hopIn_def)
  have "0 < gs \<longrightarrow> 0 \<le> hopIn" by (simp add: hopIn_def)
  with granularLoop_finite[OF raw] assms(1) have "NaN \<notin> set raw" by simp
  then have "\<forall>x \<in> set (normalizePeak raw). \<exists>a. x = Num a \<and> \<bar>a\<bar> \<le> 1"
    by (rule normalizePeak_bounded)
  moreover have "length raw = length output"
    using granularLoop_length[OF raw] by simp
  ultimately show ?thesis by (simp add: res normalizePeak_def Let_def)
qed

lemma smul_zero_window: "0 \<le> i \<Longrightarrow> i < gs \<Longrightarrow> smul (Num 0) (windowAt (getGrainWindow gs) gs i) = Num 0"
  using windowAt_finite[of i gs] by (cases "windowAt (getGrainWindow gs) gs i") simp_all

lemma granular_silence:
  "granularStretch (textureSettings ms (1/10)) (replicate 8 (Num 0)) (replicate 8 (Num 0)) 1
     = Some (replicate 8 (Num 0))"
  by (simp add: granularStretch_def grainSamples_short replicate_8 granularLoop.simps overlapAdd.simps addAt_def jsGet_def
        smul_zero_window normalizePeak_def peak_def Let_def)

theorem granularStretch_normalised_witness:
  "NaN \<notin> set (replicate 8 (Num 0))
   \<and> granularStretch (textureSettings [] (1/10)) (replicate 8 (Num 0)) (replicate 8 (Num 0)) 1
       = Some (replicate 8 (Num 0))
   \<and> length (replicate 8 (Num 0)) = length (replicate 8 (Num 0))
   \<and> (\<exists>a. Num 0 = Num a \<and> \<bar>a\<bar> \<le> 1)"
  using granularStretch_normalised[of "replicate 8 (Num 0)" "textureSettings [] (1/10)"
          "replicate 8 (Num 0)" 1 "replicate 8 (Num 0)"] granular_silence[of "[]"]
  by simp

lemma textureStart_None:
  "textureStart jitter p outLen inputLength gs = None \<Longrightarrow> outLen = 0 \<or> inputLength = gs"
  by (auto simp: textureStart_def jsRem_def split: if_splits)

lemma textureLoop_length:
  "textureLoop random input window gs hopOut k outputPos out = Some res
   \<Longrightarrow> length (snd res) = length out"
proof (erule textureLoop.raw_induct[rotated 1, where P = "\<lambda>random input window gs hopOut k outputPos out res.
         length (snd res) = length out"], goal_cases)
  case (1 f rnd inp win g h j p out res)
  show ?case
  proof (cases "p < int (length out) - g")
    case False
    with 1(2) show ?thesis by auto
  next
    case True
    define ts where "ts = textureStart ((rnd j - 5 / 10) * real_of_int g * 2) p (length out) (int (length inp)) g"
    show ?thesis
    proof (cases ts)
      case None
      with 1(2) True have "f rnd inp win g h (j + 2) (p + h) (overlapAdd (\<lambda>i. NaN) g p 0 out) = Some res"
        by (simp add: ts_def)
      from 1(1)[OF this] show ?thesis by simp
    next
      case (Some inStart)
      show ?thesis
      proof (cases "inStart < 0 \<or> int (length inp) - g \<le> inStart")
        case skip: True
        with 1(2) True Some have "f rnd inp win g h (j + 1) (p + h) out = Some res"
          by (simp add: ts_def)
        from 1(1)[OF this] show ?thesis by simp
      next
        case False
        with 1(2) True Some have "f rnd inp win g h (j + 2) (p + h)
            (overlapAdd (\<lambda>i. smul (smul (jsGet inp (inStart + i)) (windowAt win g i))
                                  (Num (8 / 10 + rnd (j + 1) * (4 / 10)))) g p 0 out) = Some res"
          by (simp add: ts_def)
        from 1(1)[OF this] show ?thesis by simp
      qed
    qed
  qed
qed

lemma textureLoop_finite:
  "textureLoop random input window gs hopOut k outputPos out = Some res
   \<Longrightarrow> NaN \<notin> set input \<and> NaN \<notin> set out \<and> window = getGrainWindow gs \<and> int (length input) \<noteq> gs
       \<longrightarrow> NaN \<notin> set (snd res)"
proof (erule textureLoop.raw_induct[rotated 1, where P = "\<lambda>random input window gs hopOut k outputPos out res.
         NaN \<notin> set input \<and> NaN \<notin> set out \<and> window = getGrainWindow gs \<and> int (length input) \<noteq> gs
         \<longrightarrow> NaN \<notin> set (snd res)"], goal_cases)
  case (1 f rnd inp win g h j p out res)
  show ?case
  proof (intro impI)
    assume a: "NaN \<notin> set inp \<and> NaN \<notin> set out \<and> win = getGrainWindow g \<and> int (length inp) \<noteq> g"
    show "NaN \<notin> set (snd res)"
    proof (cases "p < int (length out) - g")
      case False
      with 1(2) a show ?thesis by auto
    next
      case True
      define ts where "ts = textureStart ((rnd j - 5 / 10) * real_of_int g * 2) p (length out) (int (length inp)) g"
      show ?thesis
      proof (cases ts)
        case None
        with a have "length out = 0"
          using textureStart_None[of _ p "length out" "int (length inp)" g] by (auto simp: ts_def)
        then have "length (overlapAdd (\<lambda>i. NaN) g p 0 out) = 0"
          by simp
        then have e: "overlapAdd (\<lambda>i. NaN) g p 0 out = []"
          by (simp only: length_0_conv)
        from 1(2) True None have "f rnd inp win g h (j + 2) (p + h) (overlapAdd (\<lambda>i. NaN) g p 0 out) = Some res"
          by (simp add: ts_def)
        from 1(1)[OF this] a e show ?thesis by simp
      next
        case (Some inStart)
        show ?thesis
        proof (cases "inStart < 0 \<or> int (length inp) - g \<le> inStart")
          case skip: True
          with 1(2) True Some have "f rnd inp win g h (j + 1) (p + h) out = Some res"
            by (simp add: ts_def)
          from 1(1)[OF this] a show ?thesis by simp
        next
          case False
          define out' where "out' = overlapAdd (\<lambda>i. smul (smul (jsGet inp (inStart + i)) (windowAt win g i))
                                  (Num (8 / 10 + rnd (j + 1) * (4 / 10)))) g p 0 out"
          from 1(2) True Some False have rec: "f rnd inp win g h (j + 2) (p + h) out' = Some res"
            by (simp add: ts_def out'_def)
          have "NaN \<notin> set out'"
            unfolding out'_def
          proof (rule overlapAdd_finite)
            show "NaN \<notin> set out" using a by simp
          next
            fix i :: int assume i: "0 \<le> i" "i < g"
            have "jsGet inp (inStart + i) \<noteq> NaN"
              using a i False by (intro jsGet_finite) auto
            moreover have "windowAt win g i \<noteq> NaN"
              using a i by (simp add: windowAt_finite)
            ultimately have "smul (jsGet inp (inStart + i)) (windowAt win g i) \<noteq> NaN"
              by (rule smul_finite)
            then show "smul (smul (jsGet inp (inStart + i)) (windowAt win g i))
                         (Num (8 / 10 + rnd (j + 1) * (4 / 10))) \<noteq> NaN"
              by (rule smul_finite) simp
          qed
          with 1(1)[OF rec] a show ?thesis by simp
        qed
      qed
    qed
  qed
qed

text \<open>
  The same holds of \<open>textureGranularStretch\<close> when the input does not have exactly as
  many frames as the grain, for every ratio, every setting and every sequence of random
  draws.
\<close>

theorem textureGranularStretch_normalised:
  assumes "NaN \<notin> set input" and "int (length input) \<noteq> grainSamples s"
    and "textureGranularStretch s random k input output ratio = Some (k1, res)"
  shows "length res = length output \<and> (\<forall>x \<in> set res. \<exists>a. x = Num a \<and> \<bar>a\<bar> \<le> 1)"
proof -
  define gs where "gs = grainSamples s"
  from assms(3) obtain raw where
    raw: "textureLoop random input (getGrainWindow gs) gs \<lfloor>real_of_int \<lfloor>real_of_int gs * 0.25\<rfloor> * ratio\<rfloor> k 0
            (replicate (length output) (Num 0)) = Some (k1, raw)"
    and res: "res = normalizePeak raw"
    by (auto simp: textureGranularStretch_def Let_def gs_def)
  from textureLoop_finite[OF raw] assms(1,2) have "NaN \<notin> set raw" by (simp add: gs_def)
  then have "\<forall>x \<in> set (normalizePeak raw). \<exists>a. x = Num a \<and> \<bar>a\<bar> \<le> 1"
    by (rule normalizePeak_bounded)
  moreover have "length raw = length output"
    using textureLoop_length[OF raw] by simp
  ultimately show ?thesis by (simp add: res normalizePeak_def Let_def)
qed

lemma texture_silence:
  "textureGranularStretch (textureSettings ms (1/10)) (\<lambda>k. 1/2) 0 (replicate 8 (Num 0)) (replicate 8 (Num 0)) 1
     = Some (8, replicate 8 (Num 0))"
  by (simp add: textureGranularStretch_def grainSamples_short replicate_8 textureLoop.simps textureStart_def jsRem_def
        overlapAdd.simps addAt_def jsGet_def smul_zero_window normalizePeak_def peak_def Let_def)

theorem textureGranularStretch_normalised_witness:
  "NaN \<notin> set (replicate 8 (Num 0))
   \<and> int (length (replicate 8 (Num 0))) \<noteq> grainSamples (textureSettings [] (1/10))
   \<and> textureGranularStretch (textureSettings [] (1/10)) (\<lambda>k. 1/2) 0 (replicate 8 (Num 0))
         (replicate 8 (Num 0)) 1 = Some (8, replicate 8 (Num 0))
   \<and> length (replicate 8 (Num 0)) = length (replicate 8 (Num 0))
   \<and> (\<exists>a. Num 0 = Num a \<and> \<bar>a\<bar> \<le> 1)"
  using textureGranularStretch_normalised[of "replicate 8 (Num 0)" "textureSettings [] (1/10)"
          "\<lambda>k. 1/2" 0 "replicate 8 (Num 0)" 1 8 "replicate 8 (Num 0)"] texture_silence[of "[]"]
  by (simp add: grainSamples_short)

end
